theory Spec2Isabelle
  imports Complex_Main "HOL-Library.AList"
begin

section \<open>Values of the JavaScript runtime\<close>

text \<open>
  The engine of \<^verbatim>\<open>src/services/dataProcessing.ts\<close> works on rows whose cells are
  \<^verbatim>\<open>string | number | boolean | null\<close>; reading a key a row does not have gives
  \<^verbatim>\<open>undefined\<close>. A number is an IEEE double: \<open>NaN\<close>, the two infinities, or a finite
  value, which is a real. An arithmetic operation on finite values gives the exact
  result rounded to a double (an infinity when it overflows); the rounding is a
  parameter of the runtime, below. The sign of zero is not modelled: in the functions
  below a divisor is zero only where the dividend is. A text is a list of characters,
  one per code unit.
\<close>

datatype jsnum = NaN | PInf | NInf | Fin real

datatype jsval = JNull | JUndefined | JNum jsnum | JStr string | JBool bool

text \<open>
  What the engine contributes is not part of the repository; it is a parameter of every
  function that uses it: the number a non-empty text denotes (\<^verbatim>\<open>Number(s)\<close>), the
  text of a finite number (\<^verbatim>\<open>String(x)\<close>), date parsing followed by
  \<^verbatim>\<open>toISOString()\<close> (\<open>None\<close> when the text is not a date, where \<^verbatim>\<open>Date.parse\<close>
  gives \<open>NaN\<close>), the double nearest to a real (an infinity past the largest double),
  \<^verbatim>\<open>Math.sqrt\<close> of a finite number that is not negative, \<^verbatim>\<open>Math.log\<close> of a finite
  positive number, \<^verbatim>\<open>Math.pow\<close> of two finite numbers, and the largest number of
  arguments a call can pass: \<^verbatim>\<open>f(...xs)\<close> throws a \<^verbatim>\<open>RangeError\<close> when \<^verbatim>\<open>xs\<close> is
  longer. Running out of memory is not modelled.
\<close>

record js_runtime =
  StringToNumber :: "string \<Rightarrow> jsnum"
  NumberToString :: "real \<Rightarrow> string"
  DateToISO :: "string \<Rightarrow> string option"
  RoundToDouble :: "real \<Rightarrow> jsnum"
  SquareRoot :: "real \<Rightarrow> jsnum"
  NaturalLog :: "real \<Rightarrow> jsnum"
  Power :: "real \<Rightarrow> real \<Rightarrow> jsnum"
  MaxArguments :: int

definition isNaN :: "jsnum \<Rightarrow> bool" where
  "isNaN n = (n = NaN)"

text \<open>
  \<^verbatim>\<open>Number(v)\<close> (the conversion ToNumber): null and the empty text are 0, undefined
  is NaN, booleans are 0 and 1.
\<close>

fun ToNumber :: "js_runtime \<Rightarrow> jsval \<Rightarrow> jsnum" where
  "ToNumber rt JNull = Fin 0"
| "ToNumber rt JUndefined = NaN"
| "ToNumber rt (JNum n) = n"
| "ToNumber rt (JBool b) = (if b then Fin 1 else Fin 0)"
| "ToNumber rt (JStr s) = (if s = [] then Fin 0 else StringToNumber rt s)"

text \<open>\<^verbatim>\<open>String(v)\<close> (the conversion ToString), the canonical text of a value.\<close>

fun ToString :: "js_runtime \<Rightarrow> jsval \<Rightarrow> string" where
  "ToString rt JNull = ''null''"
| "ToString rt JUndefined = ''undefined''"
| "ToString rt (JNum NaN) = ''NaN''"
| "ToString rt (JNum PInf) = ''Infinity''"
| "ToString rt (JNum NInf) = ''-Infinity''"
| "ToString rt (JNum (Fin x)) = NumberToString rt x"
| "ToString rt (JStr s) = s"
| "ToString rt (JBool b) = (if b then ''true'' else ''false'')"

text \<open>Truthiness, as in \<^verbatim>\<open>val ? a : b\<close> and \<^verbatim>\<open>x || y\<close>.\<close>

fun truthy :: "jsval \<Rightarrow> bool" where
  "truthy JNull = False"
| "truthy JUndefined = False"
| "truthy (JNum n) = (n \<noteq> NaN \<and> n \<noteq> Fin 0)"
| "truthy (JStr s) = (s \<noteq> [])"
| "truthy (JBool b) = b"

text \<open>The test \<^verbatim>\<open>v === null || v === undefined || v === ''\<close> the source repeats.\<close>

definition is_missing :: "jsval \<Rightarrow> bool" where
  "is_missing v = (v = JNull \<or> v = JUndefined \<or> v = JStr [])"

subsection \<open>Arithmetic on numbers\<close>

fun num_add :: "js_runtime \<Rightarrow> jsnum \<Rightarrow> jsnum \<Rightarrow> jsnum" where
  "num_add rt NaN _ = NaN"
| "num_add rt _ NaN = NaN"
| "num_add rt PInf NInf = NaN"
| "num_add rt NInf PInf = NaN"
| "num_add rt PInf _ = PInf"
| "num_add rt _ PInf = PInf"
| "num_add rt NInf _ = NInf"
| "num_add rt _ NInf = NInf"
| "num_add rt (Fin a) (Fin b) = RoundToDouble rt (a + b)"

fun num_neg :: "jsnum \<Rightarrow> jsnum" where
  "num_neg NaN = NaN"
| "num_neg PInf = NInf"
| "num_neg NInf = PInf"
| "num_neg (Fin a) = Fin (- a)"

definition num_sub :: "js_runtime \<Rightarrow> jsnum \<Rightarrow> jsnum \<Rightarrow> jsnum" where
  "num_sub rt a b = num_add rt a (num_neg b)"

fun num_sign :: "jsnum \<Rightarrow> int" where
  "num_sign NaN = 0"
| "num_sign PInf = 1"
| "num_sign NInf = - 1"
| "num_sign (Fin a) = (if a > 0 then 1 else if a < 0 then - 1 else 0)"

definition num_inf :: "int \<Rightarrow> jsnum" where
  "num_inf s = (if s > 0 then PInf else if s < 0 then NInf else NaN)"

fun num_mul :: "js_runtime \<Rightarrow> jsnum \<Rightarrow> jsnum \<Rightarrow> jsnum" where
  "num_mul rt NaN _ = NaN"
| "num_mul rt _ NaN = NaN"
| "num_mul rt (Fin a) (Fin b) = RoundToDouble rt (a * b)"
| "num_mul rt a b = num_inf (num_sign a * num_sign b)"

fun num_div :: "js_runtime \<Rightarrow> jsnum \<Rightarrow> jsnum \<Rightarrow> jsnum" where
  "num_div rt NaN _ = NaN"
| "num_div rt _ NaN = NaN"
| "num_div rt (Fin a) (Fin b) =
     (if b = 0 then num_inf (num_sign (Fin a)) else RoundToDouble rt (a / b))"
| "num_div rt (Fin a) _ = Fin 0"
| "num_div rt a (Fin b) = num_inf (num_sign a * (if b < 0 then - 1 else 1))"
| "num_div rt _ _ = NaN"

text \<open>\<^verbatim>\<open>a < b\<close> on numbers; every comparison with NaN is false.\<close>

fun num_less :: "jsnum \<Rightarrow> jsnum \<Rightarrow> bool" where
  "num_less NaN _ = False"
| "num_less _ NaN = False"
| "num_less (Fin a) (Fin b) = (a < b)"
| "num_less NInf b = (b \<noteq> NInf)"
| "num_less a PInf = (a \<noteq> PInf)"
| "num_less _ _ = False"

definition of_length :: "nat \<Rightarrow> jsnum" where
  "of_length n = Fin (real n)"

section \<open>Type inference: \<^verbatim>\<open>identifyType\<close>\<close>

datatype ColumnType = Number | String | Date | Boolean | Mixed | Unknown

text \<open>
  The body of the \<^verbatim>\<open>forEach\<close> of \<^verbatim>\<open>identifyType\<close>: which of the four counters a
  value increments, \<open>None\<close> for the early \<^verbatim>\<open>return\<close> on a missing value. The
  branch order is the source's.
\<close>

datatype category = NumC | StrC | DateC | BoolC

fun categorize :: "js_runtime \<Rightarrow> jsval \<Rightarrow> category option" where
  "categorize rt JNull = None"
| "categorize rt JUndefined = None"
| "categorize rt (JNum n) = Some NumC"
| "categorize rt (JBool b) = Some BoolC"
| "categorize rt (JStr s) =
     (if s = [] then None
      else if \<not> isNaN (ToNumber rt (JStr s)) \<and> s \<noteq> [] then Some NumC
      else if DateToISO rt s \<noteq> None \<and> length s > 5 then Some DateC
      else Some StrC)"

record counters =
  numCount :: nat
  strCount :: nat
  dateCount :: nat
  boolCount :: nat

definition count_value :: "js_runtime \<Rightarrow> jsval \<Rightarrow> counters \<Rightarrow> counters" where
  "count_value rt v c =
     (case categorize rt v of
        None \<Rightarrow> c
      | Some NumC \<Rightarrow> c\<lparr>numCount := numCount c + 1\<rparr>
      | Some BoolC \<Rightarrow> c\<lparr>boolCount := boolCount c + 1\<rparr>
      | Some DateC \<Rightarrow> c\<lparr>dateCount := dateCount c + 1\<rparr>
      | Some StrC \<Rightarrow> c\<lparr>strCount := strCount c + 1\<rparr>)"

text \<open>
  \<^verbatim>\<open>count / total > 0.8\<close>. Both operands are lengths of arrays, below \<open>2\<^sup>3\<^sup>2\<close>: the
  rounded quotient exceeds the double nearest to 0.8 exactly when the quotient exceeds
  0.8.
\<close>

definition share_over_80 :: "nat \<Rightarrow> nat \<Rightarrow> bool" where
  "share_over_80 n len = (real n / real len > 0.8)"

definition identifyType :: "js_runtime \<Rightarrow> jsval list \<Rightarrow> ColumnType" where
  "identifyType rt values =
     (let c = fold (count_value rt) values
                \<lparr>numCount = 0, strCount = 0, dateCount = 0, boolCount = 0\<rparr>;
          len = length values
      in if len = 0 then Unknown
         else if share_over_80 (numCount c) len then Number
         else if share_over_80 (boolCount c) len then Boolean
         else if share_over_80 (dateCount c) len then Date
         else if share_over_80 (strCount c) len then String
         else Mixed)"

text \<open>
  For the statements about \<^verbatim>\<open>identifyType\<close>: how many values of a sequence fall in a
  category, and the type the function answers for a category.
\<close>

definition occurrences :: "js_runtime \<Rightarrow> category \<Rightarrow> jsval list \<Rightarrow> nat" where
  "occurrences rt c values = length (filter (\<lambda>v. categorize rt v = Some c) values)"

fun column_type :: "category \<Rightarrow> ColumnType" where
  "column_type NumC = Number"
| "column_type BoolC = Boolean"
| "column_type DateC = Date"
| "column_type StrC = String"

section \<open>Rows, objects and the store\<close>

text \<open>
  An object is the list of its own properties in the order \<^verbatim>\<open>Object.keys\<close> and
  \<^verbatim>\<open>JSON.stringify\<close> enumerate them: keys that are array indices first, in ascending
  numeric order, then the other keys in the order of their creation.
\<close>

type_synonym 'v obj = "(string \<times> 'v) list"

type_synonym DataRow = "jsval obj"

definition js_get :: "DataRow \<Rightarrow> string \<Rightarrow> jsval" where
  "js_get r k = (case map_of r k of None \<Rightarrow> JUndefined | Some v \<Rightarrow> v)"

definition js_delete :: "'v obj \<Rightarrow> string \<Rightarrow> 'v obj" where
  "js_delete r k = AList.delete k r"

definition is_digit :: "char \<Rightarrow> bool" where
  "is_digit c = (c \<in> set ''0123456789'')"

definition digit_value :: "char \<Rightarrow> int" where
  "digit_value c = of_char c - 48"

definition decimal_value :: "string \<Rightarrow> int" where
  "decimal_value s = foldl (\<lambda>n c. 10 * n + digit_value c) 0 s"

definition is_array_index :: "string \<Rightarrow> bool" where
  "is_array_index s =
     (s \<noteq> [] \<and> list_all is_digit s \<and> (s = ''0'' \<or> hd s \<noteq> CHR ''0'')
      \<and> decimal_value s < 2 ^ 32 - 1)"

fun insert_index :: "string \<Rightarrow> 'v \<Rightarrow> 'v obj \<Rightarrow> 'v obj" where
  "insert_index k v [] = [(k, v)]"
| "insert_index k v ((k', v') # r) =
     (if is_array_index k' \<and> decimal_value k' < decimal_value k
      then (k', v') # insert_index k v r
      else (k, v) # (k', v') # r)"

text \<open>The assignment \<^verbatim>\<open>o[k] = v\<close>.\<close>

definition js_set :: "'v obj \<Rightarrow> string \<Rightarrow> 'v \<Rightarrow> 'v obj" where
  "js_set r k v =
     (if k \<in> fst ` set r then AList.update k v r
      else if is_array_index k then insert_index k v r
      else r @ [(k, v)])"

definition Object_keys :: "'v obj \<Rightarrow> string list" where
  "Object_keys r = map fst r"

subsection \<open>Objects used as dictionaries\<close>

text \<open>
  An object literal \<^verbatim>\<open>{}\<close> inherits the members of \<^verbatim>\<open>Object.prototype\<close>: reading
  \<^verbatim>\<open>o[k]\<close> for one of the names below, when \<^verbatim>\<open>o\<close> has no property of its own under
  \<^verbatim>\<open>k\<close>, gives the inherited member, a function (for \<^verbatim>\<open>__proto__\<close> the prototype
  itself), hence a truthy value that is not a number. The functions below are taken in
  an engine whose built-in objects are as the language defines them.

  The objects keyed by the name of a column (the rows, and \<^verbatim>\<open>newMap\<close> of
  \<^verbatim>\<open>normalize_headers\<close>) are modelled by their own properties: a column whose name is
  one of these names is outside the model. The dictionaries keyed by the text of a cell
  (\<^verbatim>\<open>counts\<close>, \<^verbatim>\<open>groups\<close>, the contingency table) are modelled with the inherited
  members, since such a text is data.
\<close>

definition inherited_members :: "string list" where
  "inherited_members =
     [''constructor'', ''__defineGetter__'', ''__defineSetter__'', ''hasOwnProperty'',
      ''__lookupGetter__'', ''__lookupSetter__'', ''isPrototypeOf'', ''propertyIsEnumerable'',
      ''toString'', ''valueOf'', ''__proto__'', ''toLocaleString'']"

text \<open>
  A property of a dictionary of counts is a number, or the text that
  \<^verbatim>\<open>(counts[s] || 0) + 1\<close> gives when \<^verbatim>\<open>counts[s]\<close> is an inherited member or such a
  text already: the text of the member followed by \<^verbatim>\<open>1\<close>, which denotes no number.
\<close>

datatype tally = Count nat | Concatenation

text \<open>
  \<^verbatim>\<open>counts[s] = (counts[s] || 0) + 1\<close>. Assigning a text to \<^verbatim>\<open>__proto__\<close> changes
  nothing.
\<close>

definition count_up :: "tally obj \<Rightarrow> string \<Rightarrow> tally obj" where
  "count_up counts s =
     (case map_of counts s of
        Some (Count n) \<Rightarrow> js_set counts s (Count (n + 1))
      | Some Concatenation \<Rightarrow> js_set counts s Concatenation
      | None \<Rightarrow>
          if s \<in> set inherited_members
          then (if s = ''__proto__'' then counts else js_set counts s Concatenation)
          else js_set counts s (Count 1))"

text \<open>
  Rows are objects, and an array of rows holds references to them: the rows live in a
  store, and a dataset that \<^verbatim>\<open>performDataCleaning\<close> works on holds their addresses.
  \<open>fresh\<close> is the first address no object has yet. The functions that only read a
  dataset, or that start from a deep copy of it, take the rows by value instead.
\<close>

type_synonym ref = nat

record store =
  cells :: "ref \<Rightarrow> DataRow"
  fresh :: ref

record ColumnProfile =
  name :: string
  ctype :: ColumnType
  missingCount :: nat
  missingPercentage :: jsnum
  uniqueCount :: nat
  example :: jsval

record 'r DataSet =
  fileName :: string
  fileSize :: nat
  totalRows :: nat
  headers :: "string list"
  rows :: "'r list"
  columnProfiles :: "ColumnProfile list"

text \<open>\<^verbatim>\<open>Array.from(new Set(xs))\<close>: the distinct elements in the order they first occur.\<close>

fun distinct_values :: "'a list \<Rightarrow> 'a list \<Rightarrow> 'a list" where
  "distinct_values acc [] = rev acc"
| "distinct_values acc (x # xs) =
     (if x \<in> set acc then distinct_values acc xs else distinct_values (x # acc) xs)"

definition createColumnProfiles :: "js_runtime \<Rightarrow> DataRow list \<Rightarrow> string list \<Rightarrow> ColumnProfile list" where
  "createColumnProfiles rt rws hs =
     map (\<lambda>header.
       let values = map (\<lambda>r. js_get r header) rws;
           nonNullValues = filter (\<lambda>v. \<not> is_missing v) values;
           uniqueValues = distinct_values [] (map (ToString rt) nonNullValues);
           missing = length values - length nonNullValues
       in \<lparr>name = header,
           ctype = identifyType rt nonNullValues,
           missingCount = missing,
           missingPercentage =
             num_mul rt (num_div rt (of_length missing) (of_length (length values))) (Fin 100),
           uniqueCount = length uniqueValues,
           example = (case nonNullValues of [] \<Rightarrow> JNull | v # _ \<Rightarrow> v)\<rparr>) hs"

text \<open>
  \<^verbatim>\<open>rebuildDataSet\<close>; \<open>deref\<close> reads a row of the array (the store's cells for an array
  of references, the identity for an array of row values).
\<close>

definition rebuildDataSet ::
  "js_runtime \<Rightarrow> ('r \<Rightarrow> DataRow) \<Rightarrow> 'r list \<Rightarrow> string \<Rightarrow> nat \<Rightarrow> 'r DataSet" where
  "rebuildDataSet rt deref rws fName fSize =
     (let hs = (case rws of [] \<Rightarrow> [] | r # _ \<Rightarrow> Object_keys (deref r));
          profiles = createColumnProfiles rt (map deref rws) hs
      in \<lparr>fileName = fName, fileSize = fSize, totalRows = length rws, headers = hs,
          rows = rws, columnProfiles = profiles\<rparr>)"

section \<open>Text built-ins the cleaning executor uses\<close>

text \<open>
  \<^verbatim>\<open>trim\<close>, \<^verbatim>\<open>toLowerCase\<close> and the two \<^verbatim>\<open>replace\<close> calls of
  \<^verbatim>\<open>normalize_headers\<close>, on ASCII text (white space also includes the no-break space).
  \<^verbatim>\<open>\s\<close> is contained in \<^verbatim>\<open>\W\<close>, so \<^verbatim>\<open>/[\s\W]+/g\<close> replaces each maximal run
  of characters other than letters, digits and the underscore.
\<close>

definition is_space :: "char \<Rightarrow> bool" where
  "is_space c = (c \<in> {CHR 0x09, CHR 0x0A, CHR 0x0B, CHR 0x0C, CHR 0x0D, CHR 0x20, CHR 0xA0})"

definition trim :: "string \<Rightarrow> string" where
  "trim s = rev (dropWhile is_space (rev (dropWhile is_space s)))"

definition lower_char :: "char \<Rightarrow> char" where
  "lower_char c =
     (case map_of (zip ''ABCDEFGHIJKLMNOPQRSTUVWXYZ'' ''abcdefghijklmnopqrstuvwxyz'') c of
        None \<Rightarrow> c | Some l \<Rightarrow> l)"

definition toLowerCase :: "string \<Rightarrow> string" where
  "toLowerCase s = map lower_char s"

definition is_alnum :: "char \<Rightarrow> bool" where
  "is_alnum c =
     (c \<in> set ''abcdefghijklmnopqrstuvwxyzABCDEFGHIJKLMNOPQRSTUVWXYZ0123456789'')"

definition is_word :: "char \<Rightarrow> bool" where
  "is_word c = (is_alnum c \<or> c = CHR ''_'')"

text \<open>\<open>in_run\<close> tells that the previous character was already replaced.\<close>

fun replace_nonword_runs :: "bool \<Rightarrow> string \<Rightarrow> string" where
  "replace_nonword_runs in_run [] = []"
| "replace_nonword_runs in_run (c # cs) =
     (if is_word c then c # replace_nonword_runs False cs
      else if in_run then replace_nonword_runs True cs
      else CHR ''_'' # replace_nonword_runs True cs)"

definition strip_underscores :: "string \<Rightarrow> string" where
  "strip_underscores s =
     rev (dropWhile (\<lambda>c. c = CHR ''_'') (rev (dropWhile (\<lambda>c. c = CHR ''_'') s)))"

definition normalize_header :: "string \<Rightarrow> string" where
  "normalize_header h = strip_underscores (replace_nonword_runs False (toLowerCase (trim h)))"

subsection \<open>\<^verbatim>\<open>JSON.stringify\<close> of a row, and the deep copy through JSON\<close>

definition hex_digit :: "nat \<Rightarrow> char" where
  "hex_digit n = ''0123456789abcdef'' ! n"

definition json_escape :: "char \<Rightarrow> string" where
  "json_escape c =
     (if c = CHR 0x22 then [CHR 0x5C, CHR 0x22]
      else if c = CHR 0x5C then [CHR 0x5C, CHR 0x5C]
      else if c = CHR 0x08 then [CHR 0x5C, CHR ''b'']
      else if c = CHR 0x0C then [CHR 0x5C, CHR ''f'']
      else if c = CHR 0x0A then [CHR 0x5C, CHR ''n'']
      else if c = CHR 0x0D then [CHR 0x5C, CHR ''r'']
      else if c = CHR 0x09 then [CHR 0x5C, CHR ''t'']
      else if (of_char c :: nat) < 32
        then [CHR 0x5C, CHR ''u'', CHR ''0'', CHR ''0'',
              hex_digit (of_char c div 16), hex_digit (of_char c mod 16)]
      else [c])"

definition json_quote :: "string \<Rightarrow> string" where
  "json_quote s = [CHR 0x22] @ concat (map json_escape s) @ [CHR 0x22]"

fun json_value :: "js_runtime \<Rightarrow> jsval \<Rightarrow> string" where
  "json_value rt (JNum (Fin x)) = NumberToString rt x"
| "json_value rt (JNum _) = ''null''"
| "json_value rt (JStr s) = json_quote s"
| "json_value rt (JBool b) = (if b then ''true'' else ''false'')"
| "json_value rt _ = ''null''"

fun join_comma :: "string list \<Rightarrow> string" where
  "join_comma [] = []"
| "join_comma [x] = x"
| "join_comma (x # y # ys) = x @ '','' @ join_comma (y # ys)"

text \<open>A property whose value is undefined is left out of the serialisation.\<close>

definition JSON_stringify :: "js_runtime \<Rightarrow> DataRow \<Rightarrow> string" where
  "JSON_stringify rt r =
     ''{'' @ join_comma (map (\<lambda>(k, v). json_quote k @ '':'' @ json_value rt v)
                             (filter (\<lambda>(k, v). v \<noteq> JUndefined) r)) @ ''}''"

text \<open>
  \<^verbatim>\<open>JSON.parse(JSON.stringify(row))\<close>: a new object with the same keys in the same
  order; NaN and the infinities are serialised as null, every other cell reads back as
  it was written.
\<close>

fun json_clone_value :: "jsval \<Rightarrow> jsval" where
  "json_clone_value (JNum (Fin x)) = JNum (Fin x)"
| "json_clone_value (JNum _) = JNull"
| "json_clone_value v = v"

definition json_clone :: "DataRow \<Rightarrow> DataRow" where
  "json_clone r = map (\<lambda>(k, v). (k, json_clone_value v)) (filter (\<lambda>(k, v). v \<noteq> JUndefined) r)"

section \<open>The cleaning executor: \<^verbatim>\<open>performDataCleaning\<close>\<close>

text \<open>
  The fields \<^verbatim>\<open>type\<close> of an action and of the test parameters are named
  \<open>action_type\<close> and \<open>test_type\<close> here. An optional field is an \<open>option\<close>;
  \<^verbatim>\<open>action.parameters?.strategy\<close> is \<open>None\<close> when either the bag or the field is absent.
\<close>

datatype ActionType = impute | remove_duplicates | normalize_headers | cast_type | drop_column

datatype ImputationStrategy = mean | median | mode | remove_row | fill_zero | drop_column_strategy

datatype TypeCastTarget = TNumber | TString | TDate | TBoolean

record Parameters =
  strategy :: "ImputationStrategy option"
  targetType :: "TypeCastTarget option"

record CleaningAction =
  action_type :: ActionType
  column :: "string option"
  parameters :: "Parameters option"
  description :: string

record CleaningPlan =
  actions :: "CleaningAction list"
  summary :: string

datatype js_error = RangeError | TypeError | Error string

text \<open>A text field in a condition (\<^verbatim>\<open>action.column && ...\<close>): present and not empty.\<close>

definition given :: "string option \<Rightarrow> bool" where
  "given c = (case c of None \<Rightarrow> False | Some s \<Rightarrow> s \<noteq> [])"

definition the_strategy :: "CleaningAction \<Rightarrow> ImputationStrategy option" where
  "the_strategy a = (case parameters a of None \<Rightarrow> None | Some p \<Rightarrow> strategy p)"

definition the_targetType :: "CleaningAction \<Rightarrow> TypeCastTarget option" where
  "the_targetType a = (case parameters a of None \<Rightarrow> None | Some p \<Rightarrow> targetType p)"

text \<open>
  The local variables of \<^verbatim>\<open>performDataCleaning\<close>, with the store. \<^verbatim>\<open>cleanedRows\<close>
  starts as \<^verbatim>\<open>[...dataset.rows]\<close>: a new array of the same references.
\<close>

record cleaning_state =
  heap :: "ref \<Rightarrow> DataRow"
  next_ref :: ref
  cleanedRows :: "ref list"
  currentHeaders :: "string list"

text \<open>\<^verbatim>\<open>rs.forEach(r => ...)\<close> where the body changes the row in place.\<close>

definition update_each :: "(DataRow \<Rightarrow> DataRow) \<Rightarrow> ref list \<Rightarrow> (ref \<Rightarrow> DataRow) \<Rightarrow> (ref \<Rightarrow> DataRow)" where
  "update_each f rs h = fold (\<lambda>a h. h(a := f (h a))) rs h"

text \<open>The same when the body can throw: the loop stops at the first exception.\<close>

fun try_update_each ::
  "(DataRow \<Rightarrow> js_error + DataRow) \<Rightarrow> ref list \<Rightarrow> (ref \<Rightarrow> DataRow) \<Rightarrow> js_error + (ref \<Rightarrow> DataRow)" where
  "try_update_each f [] h = Inr h"
| "try_update_each f (a # rs) h =
     (case f (h a) of Inl e \<Rightarrow> Inl e | Inr r \<Rightarrow> try_update_each f rs (h(a := r)))"

subsection \<open>Phase 1: column drops\<close>

definition drop_one :: "CleaningAction \<Rightarrow> cleaning_state \<Rightarrow> cleaning_state" where
  "drop_one action s =
     (if given (column action)
      then s\<lparr>currentHeaders := filter (\<lambda>h. h \<noteq> the (column action)) (currentHeaders s),
             heap := update_each (\<lambda>row. js_delete row (the (column action))) (cleanedRows s) (heap s)\<rparr>
      else s)"

definition drop_columns :: "CleaningAction list \<Rightarrow> cleaning_state \<Rightarrow> cleaning_state" where
  "drop_columns acts s =
     fold drop_one (filter (\<lambda>a. action_type a = drop_column) acts) s"

subsection \<open>\<^verbatim>\<open>remove_duplicates\<close>\<close>

fun filter_unseen :: "('a \<Rightarrow> string) \<Rightarrow> string set \<Rightarrow> 'a list \<Rightarrow> 'a list" where
  "filter_unseen sig seen [] = []"
| "filter_unseen sig seen (x # xs) =
     (if sig x \<in> seen then filter_unseen sig seen xs
      else x # filter_unseen sig (insert (sig x) seen) xs)"

definition remove_duplicate_rows :: "js_runtime \<Rightarrow> cleaning_state \<Rightarrow> cleaning_state" where
  "remove_duplicate_rows rt s =
     s\<lparr>cleanedRows := filter_unseen (\<lambda>a. JSON_stringify rt (heap s a)) {} (cleanedRows s)\<rparr>"

subsection \<open>\<^verbatim>\<open>normalize_headers\<close>\<close>

text \<open>
  \<^verbatim>\<open>newMap\<close> sends each current header to its normal form. A key of a row is kept
  when \<^verbatim>\<open>newMap[k]\<close> is a non-empty text. The rows are new objects.
\<close>

definition rename_row :: "(string \<rightharpoonup> string) \<Rightarrow> DataRow \<Rightarrow> DataRow" where
  "rename_row newMap row =
     fold (\<lambda>k newRow. if given (newMap k) then js_set newRow (the (newMap k)) (js_get row k)
                        else newRow)
          (Object_keys row) []"

definition normalize_all_headers :: "cleaning_state \<Rightarrow> cleaning_state" where
  "normalize_all_headers s =
     (let newMap = fold (\<lambda>h m. m(h \<mapsto> normalize_header h)) (currentHeaders s) Map.empty;
          newHeaders = map normalize_header (currentHeaders s);
          newRows = map (\<lambda>a. rename_row newMap (heap s a)) (cleanedRows s);
          n = length newRows;
          addrs = [next_ref s ..< next_ref s + n]
      in s\<lparr>heap := fold (\<lambda>(a, r) h. h(a := r)) (zip addrs newRows) (heap s),
           next_ref := next_ref s + n,
           cleanedRows := addrs,
           currentHeaders := newHeaders\<rparr>)"

subsection \<open>\<^verbatim>\<open>impute\<close>\<close>

text \<open>\<^verbatim>\<open>values.filter(v => typeof v === 'number' && !isNaN(v))\<close>.\<close>

fun numeric_values :: "jsval list \<Rightarrow> jsnum list" where
  "numeric_values [] = []"
| "numeric_values (JNum n # vs) = (if isNaN n then numeric_values vs else n # numeric_values vs)"
| "numeric_values (_ # vs) = numeric_values vs"

text \<open>\<^verbatim>\<open>ns.reduce((a, b) => a + b, 0)\<close>.\<close>

definition sum_nums :: "js_runtime \<Rightarrow> jsnum list \<Rightarrow> jsnum" where
  "sum_nums rt ns = foldl (num_add rt) (Fin 0) ns"

text \<open>
  \<^verbatim>\<open>nums.sort((a, b) => a - b)\<close> on numbers that are not NaN: the sort is stable, and
  elements that compare equal are the same number, so insertion gives its result.
\<close>

fun insert_num :: "jsnum \<Rightarrow> jsnum list \<Rightarrow> jsnum list" where
  "insert_num x [] = [x]"
| "insert_num x (y # ys) = (if num_less x y then x # y # ys else y # insert_num x ys)"

definition sort_nums :: "jsnum list \<Rightarrow> jsnum list" where
  "sort_nums ns = foldr insert_num ns []"

definition mean_of :: "js_runtime \<Rightarrow> jsnum list \<Rightarrow> jsnum" where
  "mean_of rt nums = num_div rt (sum_nums rt nums) (of_length (length nums))"

definition median_of :: "js_runtime \<Rightarrow> jsnum list \<Rightarrow> jsnum" where
  "median_of rt nums =
     (let sorted = sort_nums nums; mid = length sorted div 2
      in if length sorted mod 2 \<noteq> 0 then sorted ! mid
         else num_div rt (num_add rt (sorted ! (mid - 1)) (sorted ! mid)) (Fin 2))"

text \<open>
  The loop of the \<^verbatim>\<open>mode\<close> strategy over \<^verbatim>\<open>counts\<close>, \<^verbatim>\<open>maxC\<close> and \<^verbatim>\<open>modeVal\<close>.
  \<^verbatim>\<open>counts[s] > maxC\<close> is false when \<^verbatim>\<open>counts[s]\<close> is not a number: the comparison
  converts it, to NaN.
\<close>

definition mode_step ::
  "js_runtime \<Rightarrow> jsval \<Rightarrow> tally obj \<times> nat \<times> jsval \<Rightarrow> tally obj \<times> nat \<times> jsval" where
  "mode_step rt v acc =
     (case acc of (counts, maxC, modeVal) \<Rightarrow>
        if \<not> is_missing v
        then let s = ToString rt v;
                 counts' = count_up counts s
             in (case map_of counts' s of
                   Some (Count c) \<Rightarrow>
                     if c > maxC then (counts', c, v) else (counts', maxC, modeVal)
                 | _ \<Rightarrow> (counts', maxC, modeVal))
        else acc)"

definition mode_of :: "js_runtime \<Rightarrow> jsval list \<Rightarrow> jsval" where
  "mode_of rt values = snd (snd (fold (mode_step rt) values ([], 0, JNull)))"

definition fill_value :: "js_runtime \<Rightarrow> ImputationStrategy \<Rightarrow> jsval list \<Rightarrow> jsval" where
  "fill_value rt strat values =
     (if strat = mean \<or> strat = median
      then (let nums = numeric_values values
            in if length nums > 0
               then (if strat = mean then JNum (mean_of rt nums) else JNum (median_of rt nums))
               else JNull)
      else if strat = mode then mode_of rt values
      else if strat = fill_zero then JNum (Fin 0)
      else JNull)"

definition fill_row :: "string \<Rightarrow> jsval \<Rightarrow> DataRow \<Rightarrow> DataRow" where
  "fill_row col fillValue r = (if is_missing (js_get r col) then js_set r col fillValue else r)"

definition impute_column :: "js_runtime \<Rightarrow> string \<Rightarrow> ImputationStrategy \<Rightarrow> cleaning_state \<Rightarrow> cleaning_state" where
  "impute_column rt col strat s =
     (let values = map (\<lambda>a. js_get (heap s a) col) (cleanedRows s);
          fillValue = fill_value rt strat values
      in if strat = remove_row
         then s\<lparr>cleanedRows := filter (\<lambda>a. \<not> is_missing (js_get (heap s a) col)) (cleanedRows s)\<rparr>
         else if fillValue \<noteq> JNull
         then s\<lparr>heap := update_each (fill_row col fillValue) (cleanedRows s) (heap s)\<rparr>
         else s)"

subsection \<open>\<^verbatim>\<open>cast_type\<close>\<close>

text \<open>
  The new value of one cell. \<^verbatim>\<open>new Date(text).toISOString()\<close> throws a
  \<^verbatim>\<open>RangeError\<close> when the text is not a date.
\<close>

definition cast_value :: "js_runtime \<Rightarrow> TypeCastTarget \<Rightarrow> jsval \<Rightarrow> js_error + jsval" where
  "cast_value rt ty val =
     (case ty of
        TNumber \<Rightarrow> (let num = ToNumber rt val in Inr (if isNaN num then JNull else JNum num))
      | TString \<Rightarrow> Inr (if val = JNull \<or> val = JUndefined then JNull else JStr (ToString rt val))
      | TDate \<Rightarrow>
          (if truthy val
           then (case DateToISO rt (ToString rt val) of
                   None \<Rightarrow> Inl RangeError
                 | Some text \<Rightarrow> Inr (JStr text))
           else Inr JNull)
      | TBoolean \<Rightarrow>
          (let s = toLowerCase (ToString rt val)
           in Inr (JBool (s = ''true'' \<or> s = ''1'' \<or> s = ''yes''))))"

definition cast_row :: "js_runtime \<Rightarrow> string \<Rightarrow> TypeCastTarget \<Rightarrow> DataRow \<Rightarrow> js_error + DataRow" where
  "cast_row rt col ty r =
     (case cast_value rt ty (js_get r col) of Inl e \<Rightarrow> Inl e | Inr v \<Rightarrow> Inr (js_set r col v))"

definition cast_column :: "js_runtime \<Rightarrow> string \<Rightarrow> TypeCastTarget \<Rightarrow> cleaning_state \<Rightarrow> js_error + cleaning_state" where
  "cast_column rt col ty s =
     (case try_update_each (cast_row rt col ty) (cleanedRows s) (heap s) of
        Inl e \<Rightarrow> Inl e
      | Inr h \<Rightarrow> Inr (s\<lparr>heap := h\<rparr>))"

subsection \<open>The loop over the plan, and the function\<close>

definition apply_action :: "js_runtime \<Rightarrow> CleaningAction \<Rightarrow> cleaning_state \<Rightarrow> js_error + cleaning_state" where
  "apply_action rt action s =
     (case action_type action of
        drop_column \<Rightarrow> Inr s
      | remove_duplicates \<Rightarrow> Inr (remove_duplicate_rows rt s)
      | normalize_headers \<Rightarrow> Inr (normalize_all_headers s)
      | impute \<Rightarrow>
          (if given (column action) \<and> the_strategy action \<noteq> None
           then Inr (impute_column rt (the (column action)) (the (the_strategy action)) s)
           else Inr s)
      | cast_type \<Rightarrow>
          (if given (column action) \<and> the_targetType action \<noteq> None
           then cast_column rt (the (column action)) (the (the_targetType action)) s
           else Inr s))"

fun run_actions :: "js_runtime \<Rightarrow> CleaningAction list \<Rightarrow> cleaning_state \<Rightarrow> js_error + cleaning_state" where
  "run_actions rt [] s = Inr s"
| "run_actions rt (a # acts) s =
     (case apply_action rt a s of Inl e \<Rightarrow> Inl e | Inr s' \<Rightarrow> run_actions rt acts s')"

text \<open>
  The state the function starts in, and the state when the loop over the plan has ended,
  before the dataset is rebuilt.
\<close>

definition start :: "store \<Rightarrow> ref DataSet \<Rightarrow> cleaning_state" where
  "start st dataset =
     \<lparr>heap = cells st, next_ref = fresh st,
      cleanedRows = rows dataset, currentHeaders = headers dataset\<rparr>"

definition clean :: "js_runtime \<Rightarrow> store \<Rightarrow> ref DataSet \<Rightarrow> CleaningAction list \<Rightarrow> js_error + cleaning_state" where
  "clean rt st dataset acts = run_actions rt acts (drop_columns acts (start st dataset))"

text \<open>
  \<^verbatim>\<open>performDataCleaning\<close>: the store after the call and the dataset returned, or the
  exception that rejects the promise.
\<close>

definition performDataCleaning ::
  "js_runtime \<Rightarrow> store \<Rightarrow> ref DataSet \<Rightarrow> CleaningPlan \<Rightarrow> js_error + (store \<times> ref DataSet)" where
  "performDataCleaning rt st dataset plan =
     (case clean rt st dataset (actions plan) of
        Inl e \<Rightarrow> Inl e
      | Inr s \<Rightarrow>
          Inr (\<lparr>cells = heap s, fresh = next_ref s\<rparr>,
               rebuildDataSet rt (heap s) (cleanedRows s) (fileName dataset) (fileSize dataset)))"

section \<open>The transformation executor: \<^verbatim>\<open>performDataTransformation\<close>\<close>

text \<open>
  The fields \<^verbatim>\<open>column\<close> and \<^verbatim>\<open>method\<close> of a transformation are named \<open>t_column\<close>
  and \<open>t_method\<close>. The function works on \<^verbatim>\<open>JSON.parse(JSON.stringify(dataset.rows))\<close>,
  rows that nothing else refers to, so its rows are taken by value. The local
  \<^verbatim>\<open>headers\<close> is written and never read (\<^verbatim>\<open>rebuildDataSet\<close> takes the headers from the
  first row), so it is left out.
\<close>

datatype TransformationMethod = label | one_hot | min_max | z_score | log_transform

record TransformationAction =
  t_column :: string
  t_method :: TransformationMethod

text \<open>\<^verbatim>\<open>sort()\<close> without a comparator orders texts by their code units.\<close>

fun str_less :: "string \<Rightarrow> string \<Rightarrow> bool" where
  "str_less [] [] = False"
| "str_less [] (y # ys) = True"
| "str_less (x # xs) [] = False"
| "str_less (x # xs) (y # ys) = (if x = y then str_less xs ys else (of_char x :: nat) < of_char y)"

fun insert_str :: "string \<Rightarrow> string list \<Rightarrow> string list" where
  "insert_str x [] = [x]"
| "insert_str x (y # ys) = (if str_less x y then x # y # ys else y # insert_str x ys)"

definition sort_strings :: "string list \<Rightarrow> string list" where
  "sort_strings xs = foldr insert_str xs []"

definition unique_texts :: "js_runtime \<Rightarrow> string \<Rightarrow> DataRow list \<Rightarrow> string list" where
  "unique_texts rt col rws =
     sort_strings (distinct_values [] (map (\<lambda>r. ToString rt (js_get r col)) rws))"

fun index_of :: "'a \<Rightarrow> 'a list \<Rightarrow> nat option" where
  "index_of x [] = None"
| "index_of x (y # ys) = (if x = y then Some 0 else map_option Suc (index_of x ys))"

definition label_encode :: "js_runtime \<Rightarrow> string \<Rightarrow> DataRow list \<Rightarrow> DataRow list" where
  "label_encode rt col rws =
     (let unique = unique_texts rt col rws
      in map (\<lambda>r. js_set r (col @ ''_encoded'')
                     (case index_of (ToString rt (js_get r col)) unique of
                        None \<Rightarrow> JUndefined
                      | Some idx \<Rightarrow> JNum (of_length idx))) rws)"

text \<open>\<^verbatim>\<open>val.replace(/[^a-zA-Z0-9]/g, '_')\<close>.\<close>

definition sanitize :: "string \<Rightarrow> string" where
  "sanitize val = map (\<lambda>c. if is_alnum c then c else CHR ''_'') val"

definition indicator_column :: "js_runtime \<Rightarrow> string \<Rightarrow> string \<Rightarrow> DataRow list \<Rightarrow> DataRow list" where
  "indicator_column rt col val rws =
     map (\<lambda>r. js_set r (col @ ''_'' @ sanitize val)
                 (JNum (if ToString rt (js_get r col) = val then Fin 1 else Fin 0))) rws"

definition one_hot_encode :: "js_runtime \<Rightarrow> string \<Rightarrow> DataRow list \<Rightarrow> DataRow list" where
  "one_hot_encode rt col rws =
     (let unique = unique_texts rt col rws
      in if length unique > 50 then rws
         else fold (indicator_column rt col) unique rws)"

text \<open>\<^verbatim>\<open>rows.map(r => Number(r[col])).filter(v => !isNaN(v))\<close>.\<close>

definition coerced_numbers :: "js_runtime \<Rightarrow> string \<Rightarrow> DataRow list \<Rightarrow> jsnum list" where
  "coerced_numbers rt col rws =
     filter (\<lambda>n. \<not> isNaN n) (map (\<lambda>r. ToNumber rt (js_get r col)) rws)"

text \<open>
  \<^verbatim>\<open>Math.min(...values)\<close> and \<^verbatim>\<open>Math.max(...values)\<close> on numbers that are not NaN.
  The spread passes every element as an argument of the call, which throws a
  \<^verbatim>\<open>RangeError\<close> when there are more than the engine allows.
\<close>

definition Math_min :: "js_runtime \<Rightarrow> jsnum list \<Rightarrow> js_error + jsnum" where
  "Math_min rt ns =
     (if int (length ns) > MaxArguments rt then Inl RangeError
      else Inr (fold (\<lambda>n m. if num_less n m then n else m) ns PInf))"

definition Math_max :: "js_runtime \<Rightarrow> jsnum list \<Rightarrow> js_error + jsnum" where
  "Math_max rt ns =
     (if int (length ns) > MaxArguments rt then Inl RangeError
      else Inr (fold (\<lambda>n m. if num_less m n then n else m) ns NInf))"

fun Math_sqrt :: "js_runtime \<Rightarrow> jsnum \<Rightarrow> jsnum" where
  "Math_sqrt rt (Fin a) = (if a < 0 then NaN else SquareRoot rt a)"
| "Math_sqrt rt PInf = PInf"
| "Math_sqrt rt _ = NaN"

fun Math_log :: "js_runtime \<Rightarrow> jsnum \<Rightarrow> jsnum" where
  "Math_log rt (Fin a) = (if a < 0 then NaN else if a = 0 then NInf else NaturalLog rt a)"
| "Math_log rt PInf = PInf"
| "Math_log rt _ = NaN"

text \<open>\<^verbatim>\<open>Math.pow(x, 2)\<close>.\<close>

fun Math_pow_2 :: "js_runtime \<Rightarrow> jsnum \<Rightarrow> jsnum" where
  "Math_pow_2 rt (Fin a) = Power rt a 2"
| "Math_pow_2 rt NaN = NaN"
| "Math_pow_2 rt _ = PInf"

definition rescale_row :: "js_runtime \<Rightarrow> string \<Rightarrow> (jsnum \<Rightarrow> jsnum) \<Rightarrow> DataRow \<Rightarrow> DataRow" where
  "rescale_row rt col f r =
     (let val = ToNumber rt (js_get r col)
      in if \<not> isNaN val then js_set r col (JNum (f val)) else r)"

definition min_max_scale :: "js_runtime \<Rightarrow> string \<Rightarrow> DataRow list \<Rightarrow> js_error + DataRow list" where
  "min_max_scale rt col rws =
     (let values = coerced_numbers rt col rws
      in case Math_min rt values of
           Inl e \<Rightarrow> Inl e
         | Inr lo \<Rightarrow>
             (case Math_max rt values of
                Inl e \<Rightarrow> Inl e
              | Inr hi \<Rightarrow>
                  Inr (if hi \<noteq> lo
                       then map (rescale_row rt col
                                   (\<lambda>val. num_div rt (num_sub rt val lo) (num_sub rt hi lo))) rws
                       else rws)))"

definition z_score_scale :: "js_runtime \<Rightarrow> string \<Rightarrow> DataRow list \<Rightarrow> DataRow list" where
  "z_score_scale rt col rws =
     (let values = coerced_numbers rt col rws;
          mu = num_div rt (sum_nums rt values) (of_length (length values));
          stdDev = Math_sqrt rt (num_div rt
                     (sum_nums rt (map (\<lambda>v. Math_pow_2 rt (num_sub rt v mu)) values))
                     (of_length (length values)))
      in if stdDev \<noteq> Fin 0
         then map (rescale_row rt col (\<lambda>val. num_div rt (num_sub rt val mu) stdDev)) rws
         else rws)"

definition log_scale :: "js_runtime \<Rightarrow> string \<Rightarrow> DataRow list \<Rightarrow> DataRow list" where
  "log_scale rt col rws =
     map (rescale_row rt col (\<lambda>val. if num_less (Fin 0) val then Math_log rt val else Fin 0)) rws"

definition apply_transformation ::
  "js_runtime \<Rightarrow> TransformationAction \<Rightarrow> DataRow list \<Rightarrow> js_error + DataRow list" where
  "apply_transformation rt action rws =
     (case t_method action of
        label \<Rightarrow> Inr (label_encode rt (t_column action) rws)
      | one_hot \<Rightarrow> Inr (one_hot_encode rt (t_column action) rws)
      | min_max \<Rightarrow> min_max_scale rt (t_column action) rws
      | z_score \<Rightarrow> Inr (z_score_scale rt (t_column action) rws)
      | log_transform \<Rightarrow> Inr (log_scale rt (t_column action) rws))"

text \<open>The loop over the actions stops at the first exception.\<close>

fun run_transformations ::
  "js_runtime \<Rightarrow> TransformationAction list \<Rightarrow> DataRow list \<Rightarrow> js_error + DataRow list" where
  "run_transformations rt [] rws = Inr rws"
| "run_transformations rt (a # acts) rws =
     (case apply_transformation rt a rws of
        Inl e \<Rightarrow> Inl e
      | Inr rws' \<Rightarrow> run_transformations rt acts rws')"

text \<open>
  \<^verbatim>\<open>performDataTransformation\<close>: the dataset returned, or the exception that rejects the
  promise.
\<close>

definition performDataTransformation ::
  "js_runtime \<Rightarrow> DataRow DataSet \<Rightarrow> TransformationAction list \<Rightarrow> js_error + DataRow DataSet" where
  "performDataTransformation rt dataset acts =
     (case run_transformations rt acts (map json_clone (rows dataset)) of
        Inl e \<Rightarrow> Inl e
      | Inr rws \<Rightarrow> Inr (rebuildDataSet rt (\<lambda>r. r) rws (fileName dataset) (fileSize dataset)))"

section \<open>Hypothesis tests: \<^verbatim>\<open>performHypothesisTest\<close>\<close>

text \<open>
  The function reads the dataset only. The model keeps what decides between an
  exception and a result, and the fields of the result that are texts or integers.
  The statistic, the critical value, the significance flag, the placeholder p-value
  and the two formatted texts are computed in floating point by operations that cannot
  throw; they are left out of \<open>TestResult\<close>.
\<close>

datatype TestType = t_test | z_test | chi_square | anova

record TestParams =
  test_type :: TestType
  targetColumn :: string
  groupColumn :: "string option"
  secondColumn :: "string option"

record TestResult =
  testName :: string
  statisticName :: string
  degreesOfFreedom :: int

definition getNumData :: "js_runtime \<Rightarrow> DataRow DataSet \<Rightarrow> string \<Rightarrow> jsnum list" where
  "getNumData rt dataset col =
     filter (\<lambda>n. \<not> isNaN n) (map (\<lambda>r. ToNumber rt (js_get r col)) (rows dataset))"

definition getCatData :: "js_runtime \<Rightarrow> DataRow DataSet \<Rightarrow> string \<Rightarrow> string list" where
  "getCatData rt dataset col = map (\<lambda>r. ToString rt (js_get r col)) (rows dataset)"

text \<open>
  \<^verbatim>\<open>col[i]\<close> used as a key of the contingency table: past the end of the array it is
  \<^verbatim>\<open>undefined\<close>, whose key is the text \<^verbatim>\<open>undefined\<close>.
\<close>

definition key_at :: "string list \<Rightarrow> nat \<Rightarrow> string" where
  "key_at xs i = (if i < length xs then xs ! i else ''undefined'')"

text \<open>
  The groups of the ANOVA: the numeric observations under the text of their group.
  When the text names an inherited member and \<^verbatim>\<open>groups\<close> has no property of its own
  under it, \<^verbatim>\<open>groups[gVal]\<close> is that member: it is truthy, so no array is created, and
  it has no \<^verbatim>\<open>push\<close>, so the call \<^verbatim>\<open>groups[gVal].push(val)\<close> throws a
  \<^verbatim>\<open>TypeError\<close>.
\<close>

definition add_to_group ::
  "js_runtime \<Rightarrow> string \<Rightarrow> string \<Rightarrow> DataRow \<Rightarrow> (jsnum list) obj \<Rightarrow> js_error + (jsnum list) obj" where
  "add_to_group rt groupCol targetCol r groups =
     (let gVal = ToString rt (js_get r groupCol);
          val = ToNumber rt (js_get r targetCol)
      in if \<not> isNaN val
         then (case map_of groups gVal of
                 Some g \<Rightarrow> Inr (js_set groups gVal (g @ [val]))
               | None \<Rightarrow>
                   if gVal \<in> set inherited_members then Inl TypeError
                   else Inr (js_set groups gVal [val]))
         else Inr groups)"

fun collect_groups ::
  "js_runtime \<Rightarrow> string \<Rightarrow> string \<Rightarrow> DataRow list \<Rightarrow> (jsnum list) obj \<Rightarrow> js_error + (jsnum list) obj" where
  "collect_groups rt groupCol targetCol [] groups = Inr groups"
| "collect_groups rt groupCol targetCol (r # rs) groups =
     (case add_to_group rt groupCol targetCol r groups of
        Inl e \<Rightarrow> Inl e
      | Inr groups' \<Rightarrow> collect_groups rt groupCol targetCol rs groups')"

definition anova_groups ::
  "js_runtime \<Rightarrow> DataRow DataSet \<Rightarrow> string \<Rightarrow> string \<Rightarrow> js_error + (jsnum list) obj" where
  "anova_groups rt dataset groupCol targetCol =
     collect_groups rt groupCol targetCol (rows dataset) []"

definition upper_name :: "TestType \<Rightarrow> string" where
  "upper_name ty =
     (case ty of t_test \<Rightarrow> ''T-TEST'' | z_test \<Rightarrow> ''Z-TEST''
               | chi_square \<Rightarrow> ''CHI-SQUARE'' | anova \<Rightarrow> ''ANOVA'')"

text \<open>
  \<^verbatim>\<open>performHypothesisTest\<close>: the exception that rejects the promise, or the result.

  In the loop of the chi-square test over the rows, \<^verbatim>\<open>table[rVal]\<close> is an inherited
  member when the text \<^verbatim>\<open>rVal\<close> of the first column names one, and
  \<^verbatim>\<open>table[rVal][cVal] = ...\<close> then assigns a property of that member, an object of the
  engine that all code shares. How the call goes on depends on that object (the
  assignment throws for a property that cannot be written, and what it writes is read
  by every later use of the member); this is not modelled, and the function is \<open>None\<close>
  there. The totals are dictionaries of counts; the table adds no exception and no key
  of theirs, and is left out.
\<close>

definition performHypothesisTest ::
  "js_runtime \<Rightarrow> DataRow DataSet \<Rightarrow> TestParams \<Rightarrow> (js_error + TestResult) option" where
  "performHypothesisTest rt dataset params =
     (if test_type params = t_test \<or> test_type params = z_test
      then (let data1 = getNumData rt dataset (targetColumn params);
                data2 = (if given (secondColumn params)
                         then getNumData rt dataset (the (secondColumn params)) else [])
            in if length data1 < 2 \<or> length data2 < 2
               then Some (Inl (Error ''Not enough numeric data''))
               else Some (Inr \<lparr>testName = upper_name (test_type params),
                               statisticName = (if test_type params = t_test then ''t'' else ''z''),
                               degreesOfFreedom = int (length data1) + int (length data2) - 2\<rparr>))
      else if test_type params = chi_square
      then (if \<not> given (secondColumn params)
            then Some (Inl (Error ''Chi-Square requires two categorical columns''))
            else (let col1 = getCatData rt dataset (targetColumn params);
                      col2 = getCatData rt dataset (the (secondColumn params));
                      idx = [0 ..< totalRows dataset];
                      rVals = map (key_at col1) idx;
                      cVals = map (key_at col2) idx
                  in if list_ex (\<lambda>rVal. rVal \<in> set inherited_members) rVals then None
                     else (let rowTotals = fold (\<lambda>rVal totals. count_up totals rVal) rVals [];
                               colTotals = fold (\<lambda>cVal totals. count_up totals cVal) cVals []
                           in Some (Inr \<lparr>testName = upper_name (test_type params),
                                 statisticName = ''Chi'' @ [CHR 0xB2],
                                 degreesOfFreedom =
                                   (int (length (Object_keys rowTotals)) - 1) *
                                   (int (length (Object_keys colTotals)) - 1)\<rparr>))))
      else (if \<not> given (groupColumn params)
            then Some (Inl (Error ''ANOVA requires a group column''))
            else (case anova_groups rt dataset (the (groupColumn params)) (targetColumn params) of
                    Inl e \<Rightarrow> Some (Inl e)
                  | Inr groups \<Rightarrow>
                      (let k = length (Object_keys groups)
                       in if k < 2
                          then Some (Inl (Error ''Need at least 2 groups for ANOVA''))
                          else Some (Inr \<lparr>testName = upper_name (test_type params),
                                          statisticName = ''F'',
                                          degreesOfFreedom = int k - 1\<rparr>)))))"

section \<open>Category counts: \<^verbatim>\<open>getCategoryCounts\<close>\<close>

definition count_row :: "js_runtime \<Rightarrow> string \<Rightarrow> DataRow \<Rightarrow> tally obj \<Rightarrow> tally obj" where
  "count_row rt col row counts =
     (let val = js_get row col
      in if val \<noteq> JNull \<and> val \<noteq> JUndefined
         then (let strVal = ToString rt val in count_up counts strVal)
         else counts)"

text \<open>
  The comparator \<^verbatim>\<open>(a, b) => b.value - a.value\<close> is negative, and \<^verbatim>\<open>a\<close> goes
  before \<^verbatim>\<open>b\<close>, when both values are numbers and \<^verbatim>\<open>a\<close>'s is the larger. With a
  value that is not a number the difference is NaN, which the sort takes for zero: such
  an entry compares equal to every entry.
\<close>

definition goes_before :: "string \<times> tally \<Rightarrow> string \<times> tally \<Rightarrow> bool" where
  "goes_before a b =
     (case (snd a, snd b) of (Count m, Count n) \<Rightarrow> n < m | _ \<Rightarrow> False)"

text \<open>
  The language fixes the result of the sort when the comparator is consistent: the
  sort is stable, so entries that compare equal keep their order. When an entry that
  is not a number stands beside two different counts, the comparator is not consistent
  (the entry is equal to both counts, which are not equal), and the order is the
  engine's choice.
\<close>

definition consistent_comparator :: "(string \<times> tally) list \<Rightarrow> bool" where
  "consistent_comparator entries =
     (list_all (\<lambda>e. snd e \<noteq> Concatenation) entries \<or>
      length (remdups (filter (\<lambda>t. t \<noteq> Concatenation) (map snd entries))) \<le> 1)"

fun insert_desc :: "string \<times> tally \<Rightarrow> (string \<times> tally) list \<Rightarrow> (string \<times> tally) list" where
  "insert_desc x [] = [x]"
| "insert_desc x (y # ys) = (if goes_before x y then x # y # ys else y # insert_desc x ys)"

definition sort_desc :: "(string \<times> tally) list \<Rightarrow> (string \<times> tally) list" where
  "sort_desc xs = foldl (\<lambda>acc x. insert_desc x acc) [] xs"

text \<open>\<^verbatim>\<open>xs.slice(0, limit)\<close>; a negative limit counts from the end.\<close>

definition slice_to :: "int \<Rightarrow> 'a list \<Rightarrow> 'a list" where
  "slice_to limit xs =
     (if limit < 0 then take (nat (int (length xs) + limit)) xs else take (nat limit) xs)"

text \<open>
  \<^verbatim>\<open>getCategoryCounts\<close>: the entries of the result, each a name and a value; \<open>None\<close>
  where the language leaves their order to the engine.
\<close>

definition getCategoryCounts ::
  "js_runtime \<Rightarrow> DataRow DataSet \<Rightarrow> string \<Rightarrow> int \<Rightarrow> (string \<times> tally) list option" where
  "getCategoryCounts rt dataset col limit =
     (let counts = fold (count_row rt col) (rows dataset) []
      in if consistent_comparator counts then Some (slice_to limit (sort_desc counts))
         else None)"

section \<open>A runtime for concrete inputs\<close>

text \<open>
  To evaluate the functions at a concrete input the runtime must be given. This
  instance reads and writes the decimal numerals of natural numbers as the language
  does (with a minus sign when writing a negative integer), takes any other text for
  not a number, and takes no text for a date. Its arithmetic rounds nothing, and it has
  no square root, logarithm or power (it answers NaN). A call takes 65535 arguments.
  The inputs it is used on hold only such numbers and no date, the numbers the
  statements read from its results are doubles, and none comes from the three functions
  it lacks.
\<close>

fun nat_text :: "nat \<Rightarrow> string" where
  "nat_text n =
     (if n < 10 then [''0123456789'' ! n]
      else nat_text (n div 10) @ [''0123456789'' ! (n mod 10)])"

definition integer_text :: "real \<Rightarrow> string" where
  "integer_text x = (if x < 0 then CHR ''-'' # nat_text (nat \<lfloor>- x\<rfloor>) else nat_text (nat \<lfloor>x\<rfloor>))"

definition numeral_value :: "string \<Rightarrow> jsnum" where
  "numeral_value s =
     (if s \<noteq> [] \<and> list_all is_digit s then Fin (real_of_int (decimal_value s)) else NaN)"

definition sample_runtime :: js_runtime where
  "sample_runtime =
     \<lparr>StringToNumber = numeral_value, NumberToString = integer_text, DateToISO = (\<lambda>s. None),
      RoundToDouble = Fin, SquareRoot = (\<lambda>a. NaN), NaturalLog = (\<lambda>a. NaN),
      Power = (\<lambda>a b. NaN), MaxArguments = 65535\<rparr>"

section \<open>Datasets for the statements\<close>

text \<open>
  A store that holds the given rows at the addresses \<open>0, 1, ...\<close>, and the dataset over
  these rows as \<^verbatim>\<open>rebuildDataSet\<close> builds it: each row object once, in order.
\<close>

definition store_of :: "DataRow list \<Rightarrow> store" where
  "store_of rws = \<lparr>cells = (\<lambda>a. if a < length rws then rws ! a else []), fresh = length rws\<rparr>"

definition dataset_of :: "js_runtime \<Rightarrow> DataRow list \<Rightarrow> ref DataSet" where
  "dataset_of rt rws =
     rebuildDataSet rt (cells (store_of rws)) [0 ..< length rws] ''data.csv'' 0"

text \<open>The same dataset with its rows by value, for the functions that take them so.\<close>

definition table_of :: "js_runtime \<Rightarrow> DataRow list \<Rightarrow> DataRow DataSet" where
  "table_of rt rws = rebuildDataSet rt (\<lambda>r. r) rws ''data.csv'' 0"

definition plan_of :: "CleaningAction list \<Rightarrow> CleaningPlan" where
  "plan_of acts = \<lparr>actions = acts, summary = []\<rparr>"

definition action :: "ActionType \<Rightarrow> string \<Rightarrow> Parameters option \<Rightarrow> CleaningAction" where
  "action ty col ps = \<lparr>action_type = ty, column = Some col, parameters = ps, description = []\<rparr>"

definition with_strategy :: "ImputationStrategy \<Rightarrow> Parameters option" where
  "with_strategy strat = Some \<lparr>strategy = Some strat, targetType = None\<rparr>"

definition with_target :: "TypeCastTarget \<Rightarrow> Parameters option" where
  "with_target ty = Some \<lparr>strategy = None, targetType = Some ty\<rparr>"

text \<open>
  What a caller sees after \<^verbatim>\<open>performDataCleaning\<close>: the rows of the dataset it gets
  back, and the rows of the dataset it passed in, both read in the store after the call.
\<close>

definition returned_rows :: "js_error + (store \<times> ref DataSet) \<Rightarrow> js_error + DataRow list" where
  "returned_rows res =
     (case res of Inl e \<Rightarrow> Inl e | Inr (st, d) \<Rightarrow> Inr (map (cells st) (rows d)))"

definition rows_after :: "ref DataSet \<Rightarrow> js_error + (store \<times> ref DataSet) \<Rightarrow> js_error + DataRow list" where
  "rows_after d0 res =
     (case res of Inl e \<Rightarrow> Inl e | Inr (st, d) \<Rightarrow> Inr (map (cells st) (rows d0)))"

text \<open>The cells of one column of the returned dataset, read in the store after the call.\<close>

definition returned_column :: "string \<Rightarrow> js_error + (store \<times> ref DataSet) \<Rightarrow> js_error + jsval list" where
  "returned_column col res =
     (case res of
        Inl e \<Rightarrow> Inl e
      | Inr (st, d) \<Rightarrow> Inr (map (\<lambda>a. js_get (cells st a) col) (rows d)))"

text \<open>The cell a cast to Number writes: \<^verbatim>\<open>isNaN(num) ? null : num\<close>.\<close>

definition number_or_null :: "js_runtime \<Rightarrow> jsval \<Rightarrow> jsval" where
  "number_or_null rt v = (if isNaN (ToNumber rt v) then JNull else JNum (ToNumber rt v))"

text \<open>A row is an object: no key occurs twice.\<close>

definition is_object :: "'v obj \<Rightarrow> bool" where
  "is_object r = distinct (map fst r)"

text \<open>
  Whether an imputation strategy finds a value to fill with among the values of the
  column, as the code looks for one: a number that is not NaN for the mean and the
  median; for the mode a value that is not missing and whose text names no inherited
  member; a constant fill always has one.
\<close>

definition has_basis :: "js_runtime \<Rightarrow> ImputationStrategy \<Rightarrow> jsval list \<Rightarrow> bool" where
  "has_basis rt strat values =
     (if strat = mean \<or> strat = median then numeric_values values \<noteq> []
      else if strat = mode
      then list_ex (\<lambda>v. \<not> is_missing v \<and> ToString rt v \<notin> set inherited_members) values
      else strat = fill_zero)"

text \<open>
  A dictionary of counts as the loops build it: the properties that are not numbers are
  those under the name of an inherited member.
\<close>

definition counts_by_name :: "tally obj \<Rightarrow> bool" where
  "counts_by_name counts =
     (\<forall>k t. map_of counts k = Some t \<longrightarrow> (t = Concatenation) = (k \<in> set inherited_members))"

text \<open>
  For the statements about the hypothesis tests. A column no row has. A usable numeric
  observation: a number other than NaN, or text that is not blank and denotes a number.
  A column without the cells that the numeric conversion makes numbers of although they
  hold none: null, booleans and blank text. A column none of whose texts names an
  inherited member. The texts of the groups that have a usable observation of the target
  column.
\<close>

definition column_absent :: "DataRow DataSet \<Rightarrow> string \<Rightarrow> bool" where
  "column_absent dataset col = list_all (\<lambda>r. js_get r col = JUndefined) (rows dataset)"

definition blank :: "string \<Rightarrow> bool" where
  "blank s = list_all is_space s"

definition usable :: "js_runtime \<Rightarrow> jsval \<Rightarrow> bool" where
  "usable rt v =
     (case v of
        JNum n \<Rightarrow> n \<noteq> NaN
      | JStr s \<Rightarrow> \<not> blank s \<and> \<not> isNaN (ToNumber rt v)
      | _ \<Rightarrow> False)"

definition observations :: "js_runtime \<Rightarrow> DataRow DataSet \<Rightarrow> string \<Rightarrow> nat" where
  "observations rt dataset col =
     length (filter (\<lambda>r. usable rt (js_get r col)) (rows dataset))"

definition no_coerced_cells :: "DataRow DataSet \<Rightarrow> string \<Rightarrow> bool" where
  "no_coerced_cells dataset col =
     list_all (\<lambda>r. case js_get r col of
                      JNull \<Rightarrow> False
                    | JBool b \<Rightarrow> False
                    | JStr s \<Rightarrow> \<not> blank s
                    | _ \<Rightarrow> True) (rows dataset)"

definition no_inherited_names :: "js_runtime \<Rightarrow> DataRow DataSet \<Rightarrow> string \<Rightarrow> bool" where
  "no_inherited_names rt dataset col =
     list_all (\<lambda>r. ToString rt (js_get r col) \<notin> set inherited_members) (rows dataset)"

definition group_texts :: "js_runtime \<Rightarrow> DataRow DataSet \<Rightarrow> string \<Rightarrow> string \<Rightarrow> string set" where
  "group_texts rt dataset groupCol targetCol =
     (\<lambda>r. ToString rt (js_get r groupCol)) `
       {r \<in> set (rows dataset). usable rt (js_get r targetCol)}"

text \<open>
  The datasets and parameters the statement about the exceptions speaks of: the columns
  of a numeric test hold no cell that is coerced, and the column whose texts become keys
  of a dictionary that is read before it is written (the group column of the ANOVA, the
  first column of the chi-square test) holds no name of an inherited member.
\<close>

definition in_scope :: "js_runtime \<Rightarrow> DataRow DataSet \<Rightarrow> TestParams \<Rightarrow> bool" where
  "in_scope rt dataset params =
     (case test_type params of
        chi_square \<Rightarrow> no_inherited_names rt dataset (targetColumn params)
      | anova \<Rightarrow>
          no_coerced_cells dataset (targetColumn params) \<and>
          (given (groupColumn params) \<longrightarrow>
             no_inherited_names rt dataset (the (groupColumn params)))
      | _ \<Rightarrow>
          no_coerced_cells dataset (targetColumn params) \<and>
          (given (secondColumn params) \<longrightarrow>
             no_coerced_cells dataset (the (secondColumn params))))"

text \<open>The condition under which the function throws, on these.\<close>

definition rejects :: "js_runtime \<Rightarrow> DataRow DataSet \<Rightarrow> TestParams \<Rightarrow> bool" where
  "rejects rt dataset params =
     (case test_type params of
        chi_square \<Rightarrow> \<not> given (secondColumn params)
      | anova \<Rightarrow>
          \<not> given (groupColumn params) \<or>
          card (group_texts rt dataset (the (groupColumn params)) (targetColumn params)) < 2
      | _ \<Rightarrow>
          observations rt dataset (targetColumn params) < 2 \<or>
          \<not> given (secondColumn params) \<or>
          observations rt dataset (the (secondColumn params)) < 2)"

definition throws :: "(js_error + 'a) option \<Rightarrow> bool" where
  "throws res = (case res of Some (Inl e) \<Rightarrow> True | _ \<Rightarrow> False)"

definition returns :: "(js_error + 'a) option \<Rightarrow> bool" where
  "returns res = (case res of Some (Inr r) \<Rightarrow> True | _ \<Rightarrow> False)"

text \<open>A cell that holds text whose numeric conversion is NaN.\<close>

definition non_numeric_text :: "js_runtime \<Rightarrow> jsval \<Rightarrow> bool" where
  "non_numeric_text rt v = (case v of JStr s \<Rightarrow> isNaN (ToNumber rt v) | _ \<Rightarrow> False)"

section \<open>Properties of type inference\<close>

lemma fold_count_value:
  "fold (count_value rt) vs c =
     \<lparr>numCount = numCount c + occurrences rt NumC vs,
      strCount = strCount c + occurrences rt StrC vs,
      dateCount = dateCount c + occurrences rt DateC vs,
      boolCount = boolCount c + occurrences rt BoolC vs\<rparr>"
proof (induction vs arbitrary: c)
  case Nil
  then show ?case by (simp add: occurrences_def)
next
  case (Cons v vs)
  have "fold (count_value rt) (v # vs) c = fold (count_value rt) vs (count_value rt v c)"
    by simp
  also have "\<dots> =
     \<lparr>numCount = numCount (count_value rt v c) + occurrences rt NumC vs,
      strCount = strCount (count_value rt v c) + occurrences rt StrC vs,
      dateCount = dateCount (count_value rt v c) + occurrences rt DateC vs,
      boolCount = boolCount (count_value rt v c) + occurrences rt BoolC vs\<rparr>"
    by (rule Cons.IH)
  also have "\<dots> =
     \<lparr>numCount = numCount c + occurrences rt NumC (v # vs),
      strCount = strCount c + occurrences rt StrC (v # vs),
      dateCount = dateCount c + occurrences rt DateC (v # vs),
      boolCount = boolCount c + occurrences rt BoolC (v # vs)\<rparr>"
    by (cases "categorize rt v")
       (auto simp: count_value_def occurrences_def split: category.splits)
  finally show ?case .
qed

text \<open>
  The source compares the quotient of two array lengths with the double nearest to 0.8;
  for lengths an array can have this is the comparison of \<open>5 * n\<close> with \<open>4 * len\<close>.
\<close>

lemma share_over_80_iff: "0 < len \<Longrightarrow> share_over_80 n len \<longleftrightarrow> 4 * len < 5 * n"
proof -
  assume pos: "0 < len"
  have "share_over_80 n len \<longleftrightarrow> 4 * real len < 5 * real n"
    using pos by (simp add: share_over_80_def field_simps)
  also have "\<dots> \<longleftrightarrow> real (4 * len) < real (5 * n)" by simp
  also have "\<dots> \<longleftrightarrow> 4 * len < 5 * n" by (rule of_nat_less_iff)
  finally show ?thesis .
qed

lemma occurrences_sum:
  "occurrences rt NumC vs + occurrences rt BoolC vs + occurrences rt DateC vs
     + occurrences rt StrC vs \<le> length vs"
proof (induction vs)
  case Nil
  then show ?case by (simp add: occurrences_def)
next
  case (Cons v vs)
  then show ?case
    by (cases "categorize rt v"; cases "the (categorize rt v)") (auto simp: occurrences_def)
qed

lemma occurrences_simps:
  "occurrences rt c [] = 0"
  "occurrences rt c (v # vs) =
     (if categorize rt v = Some c then Suc (occurrences rt c vs) else occurrences rt c vs)"
  by (simp_all add: occurrences_def)

lemma identifyType_eq:
  "identifyType rt vs =
     (if vs = [] then Unknown
      else if 4 * length vs < 5 * occurrences rt NumC vs then Number
      else if 4 * length vs < 5 * occurrences rt BoolC vs then Boolean
      else if 4 * length vs < 5 * occurrences rt DateC vs then Date
      else if 4 * length vs < 5 * occurrences rt StrC vs then String
      else Mixed)"
  by (cases "vs = []") (simp_all add: identifyType_def fold_count_value share_over_80_iff Let_def)

text \<open>
  Claim C3, as the code has it. For every sequence of values: the empty sequence is
  Unknown; when more than 80% of the values fall in one category (numeric, boolean,
  date, text) the inferred type is that category's; when the sequence is not empty and
  no category has more than 80% of the values, the type is Mixed. A category with
  exactly 80% does not decide the type.
\<close>

theorem identifyType_by_share:
  "(values = [] \<longrightarrow> identifyType rt values = Unknown) \<and>
   (\<forall>c. 4 * length values < 5 * occurrences rt c values
        \<longrightarrow> identifyType rt values = column_type c) \<and>
   (values \<noteq> [] \<and> (\<forall>c. 5 * occurrences rt c values \<le> 4 * length values)
        \<longrightarrow> identifyType rt values = Mixed)"
proof (intro conjI allI impI)
  show "identifyType rt values = Unknown" if "values = []"
    using that by (simp add: identifyType_eq)
next
  fix c assume over: "4 * length values < 5 * occurrences rt c values"
  then have ne: "values \<noteq> []" by (auto simp: occurrences_def)
  have total: "occurrences rt NumC values + occurrences rt BoolC values
      + occurrences rt DateC values + occurrences rt StrC values \<le> length values"
    by (rule occurrences_sum)
  show "identifyType rt values = column_type c"
    using over total ne by (cases c) (simp_all add: identifyType_eq)
next
  assume "values \<noteq> [] \<and> (\<forall>c. 5 * occurrences rt c values \<le> 4 * length values)"
  then have ne: "values \<noteq> []"
    and le: "\<And>c. \<not> 4 * length values < 5 * occurrences rt c values"
    by (auto simp: not_less)
  show "identifyType rt values = Mixed"
    using ne le by (simp add: identifyType_eq)
qed

theorem identifyType_by_share_witness:
  "identifyType sample_runtime [] = Unknown \<and>
   identifyType sample_runtime
     [JNum (Fin 1), JNum (Fin 2), JNum (Fin 3), JNum (Fin 4), JNum (Fin 5), JBool True] = Number \<and>
   identifyType sample_runtime [JNum (Fin 1), JBool True] = Mixed"
proof -
  let ?six = "[JNum (Fin 1), JNum (Fin 2), JNum (Fin 3), JNum (Fin 4), JNum (Fin 5), JBool True]"
  let ?two = "[JNum (Fin 1), JBool True]"
  have over: "4 * length ?six < 5 * occurrences sample_runtime NumC ?six"
    by (simp add: occurrences_simps)
  have none: "\<forall>c. 5 * occurrences sample_runtime c ?two \<le> 4 * length ?two"
  proof
    fix c show "5 * occurrences sample_runtime c ?two \<le> 4 * length ?two"
      by (cases c) (simp_all add: occurrences_simps)
  qed
  show ?thesis
    using identifyType_by_share [of "[]" sample_runtime]
      identifyType_by_share [of ?six sample_runtime] over
      identifyType_by_share [of ?two sample_runtime] none
    by (metis column_type.simps(1) list.distinct(1))
qed

text \<open>
  Four numbers and a boolean: 80% of the values are numeric, and the type is Mixed.
\<close>

theorem identifyType_at_80_percent:
  "4 * length [JNum (Fin 1), JNum (Fin 2), JNum (Fin 3), JNum (Fin 4), JBool True]
     \<le> 5 * occurrences sample_runtime NumC
             [JNum (Fin 1), JNum (Fin 2), JNum (Fin 3), JNum (Fin 4), JBool True] \<and>
   identifyType sample_runtime
     [JNum (Fin 1), JNum (Fin 2), JNum (Fin 3), JNum (Fin 4), JBool True] = Mixed"
  by (simp add: identifyType_def count_value_def share_over_80_def occurrences_def)

section \<open>Properties of the cleaning executor\<close>

lemma run_actions_append:
  "run_actions rt (xs @ ys) s =
     (case run_actions rt xs s of Inl e \<Rightarrow> Inl e | Inr s' \<Rightarrow> run_actions rt ys s')"
  by (induction xs arbitrary: s) (auto split: sum.splits)

lemma clean_snoc:
  assumes "action_type a \<noteq> drop_column"
  shows "clean rt st ds (pre @ [a]) =
     (case clean rt st ds pre of Inl e \<Rightarrow> Inl e | Inr s \<Rightarrow> apply_action rt a s)"
  using assms by (simp add: clean_def drop_columns_def run_actions_append split: sum.splits)

subsection \<open>Objects\<close>

lemma map_of_insert_index:
  "k \<notin> fst ` set r \<Longrightarrow> map_of (insert_index k v r) = (map_of r)(k \<mapsto> v)"
proof (induction r)
  case Nil
  then show ?case by simp
next
  case (Cons p r)
  obtain k' v' where p: "p = (k', v')" by (cases p)
  from Cons.prems p have ne: "k \<noteq> k'" and notin: "k \<notin> fst ` set r" by auto
  show ?case using ne Cons.IH [OF notin] by (auto simp: p fun_upd_twist)
qed

lemma map_of_js_set: "map_of (js_set r k v) = (map_of r)(k \<mapsto> v)"
proof (cases "k \<in> fst ` set r")
  case True
  then show ?thesis by (simp add: js_set_def update_conv')
next
  case False
  then have "map_of r k = None" by (simp add: map_of_eq_None_iff)
  then have "map_of (r @ [(k, v)]) = (map_of r)(k \<mapsto> v)"
    by (auto simp: map_add_def fun_eq_iff split: option.splits)
  then show ?thesis using False by (simp add: js_set_def map_of_insert_index)
qed

lemma js_get_js_set: "js_get (js_set r k v) k' = (if k' = k then v else js_get r k')"
  by (simp add: js_get_def map_of_js_set)

subsection \<open>Loops over the rows\<close>

lemma update_each_Cons: "update_each f (a # rs) h = update_each f rs (h(a := f (h a)))"
  by (simp add: update_each_def)

lemma update_each_other: "a \<notin> set rs \<Longrightarrow> update_each f rs h a = h a"
  by (induction rs arbitrary: h) (auto simp: update_each_def)

lemma update_each_distinct:
  "distinct rs \<Longrightarrow> a \<in> set rs \<Longrightarrow> update_each f rs h a = f (h a)"
proof (induction rs arbitrary: h)
  case Nil
  then show ?case by simp
next
  case (Cons x rs)
  show ?case
  proof (cases "a = x")
    case True
    with Cons.prems have "a \<notin> set rs" by simp
    then show ?thesis using True by (simp add: update_each_Cons update_each_other)
  next
    case False
    with Cons.prems have "a \<in> set rs" "distinct rs" by simp_all
    then show ?thesis using False Cons.IH by (simp add: update_each_Cons)
  qed
qed

lemma update_each_establishes:
  assumes "\<And>r. P (f r)" and "a \<in> set rs"
  shows "P (update_each f rs h a)"
  using assms(2)
proof (induction rs arbitrary: h)
  case Nil
  then show ?case by simp
next
  case (Cons x rs)
  show ?case
  proof (cases "a \<in> set rs")
    case True
    then show ?thesis using Cons.IH by (simp add: update_each_Cons)
  next
    case False
    with Cons.prems have "a = x" by simp
    then show ?thesis using False assms(1) by (simp add: update_each_Cons update_each_other)
  qed
qed

lemma update_each_fixed: "f (h a) = h a \<Longrightarrow> update_each f rs h a = h a"
proof (induction rs arbitrary: h)
  case Nil
  then show ?case by (simp add: update_each_def)
next
  case (Cons x rs)
  let ?h = "h(x := f (h x))"
  have same: "?h a = h a" using Cons.prems by auto
  then have "f (?h a) = ?h a" using Cons.prems by simp
  then have "update_each f rs ?h a = ?h a" by (rule Cons.IH)
  then show ?case using same by (simp only: update_each_Cons)
qed

lemma try_update_each_total:
  "(\<And>r. f r = Inr (g r)) \<Longrightarrow> try_update_each f rs h = Inr (update_each g rs h)"
  by (induction rs arbitrary: h) (simp_all add: update_each_def)

subsection \<open>Each row object once\<close>

lemma cleanedRows_drop_columns: "cleanedRows (drop_columns acts s) = cleanedRows s"
proof -
  have "cleanedRows (fold drop_one xs s) = cleanedRows s" for xs
    by (induction xs arbitrary: s) (simp_all add: drop_one_def)
  then show ?thesis by (simp add: drop_columns_def)
qed

lemma set_filter_unseen: "set (filter_unseen sig seen xs) \<subseteq> set xs"
  by (induction xs arbitrary: seen) auto

lemma distinct_filter_unseen: "distinct xs \<Longrightarrow> distinct (filter_unseen sig seen xs)"
proof (induction xs arbitrary: seen)
  case Nil
  then show ?case by simp
next
  case (Cons x xs)
  then show ?case using set_filter_unseen [of sig "insert (sig x) seen" xs] by auto
qed

lemma distinct_apply_action:
  "distinct (cleanedRows s) \<Longrightarrow> apply_action rt a s = Inr s' \<Longrightarrow> distinct (cleanedRows s')"
  by (cases "action_type a")
     (auto simp: apply_action_def remove_duplicate_rows_def normalize_all_headers_def
        impute_column_def cast_column_def distinct_filter_unseen Let_def
        split: if_splits sum.splits)

lemma distinct_run_actions:
  "distinct (cleanedRows s) \<Longrightarrow> run_actions rt acts s = Inr s' \<Longrightarrow> distinct (cleanedRows s')"
proof (induction acts arbitrary: s)
  case Nil
  then show ?case by simp
next
  case (Cons a acts)
  then show ?case by (auto split: sum.splits dest: distinct_apply_action)
qed

lemma distinct_clean:
  "distinct (rows ds) \<Longrightarrow> clean rt st ds acts = Inr s \<Longrightarrow> distinct (cleanedRows s)"
proof -
  assume d: "distinct (rows ds)" and c: "clean rt st ds acts = Inr s"
  let ?s0 = "start st ds"
  have "distinct (cleanedRows (drop_columns acts ?s0))"
    using d by (simp add: cleanedRows_drop_columns start_def)
  moreover have "run_actions rt acts (drop_columns acts ?s0) = Inr s"
    using c by (simp add: clean_def)
  ultimately show ?thesis by (rule distinct_run_actions)
qed

subsection \<open>Concrete datasets\<close>

lemma clean_Nil: "clean rt st ds [] = Inr (start st ds)"
  by (simp add: clean_def drop_columns_def)

lemma rows_dataset_of: "rows (dataset_of rt rws) = [0 ..< length rws]"
  by (simp add: dataset_of_def rebuildDataSet_def Let_def)

subsection \<open>\<^verbatim>\<open>remove_duplicates\<close>\<close>

lemma filter_unseen_nths:
  "filter_unseen sig seen xs =
     nths xs {i. sig (xs ! i) \<notin> seen \<and> (\<forall>j<i. sig (xs ! j) \<noteq> sig (xs ! i))}"
proof (induction xs arbitrary: seen)
  case Nil
  then show ?case by simp
next
  case (Cons x xs)
  show ?case
  proof (cases "sig x \<in> seen")
    case True
    have "{j. Suc j \<in> {i. sig ((x # xs) ! i) \<notin> seen
                          \<and> (\<forall>j<i. sig ((x # xs) ! j) \<noteq> sig ((x # xs) ! i))}}
        = {i. sig (xs ! i) \<notin> seen \<and> (\<forall>j<i. sig (xs ! j) \<noteq> sig (xs ! i))}"
      using True by (auto simp: All_less_Suc2)
    then show ?thesis using True by (simp add: nths_Cons Cons.IH)
  next
    case False
    have "{j. Suc j \<in> {i. sig ((x # xs) ! i) \<notin> seen
                          \<and> (\<forall>j<i. sig ((x # xs) ! j) \<noteq> sig ((x # xs) ! i))}}
        = {i. sig (xs ! i) \<notin> insert (sig x) seen \<and> (\<forall>j<i. sig (xs ! j) \<noteq> sig (xs ! i))}"
      using False by (auto simp: All_less_Suc2)
    then show ?thesis using False by (simp add: nths_Cons Cons.IH)
  qed
qed

text \<open>
  Claim C4, as the code has it. Let a plan end with a \<^verbatim>\<open>remove_duplicates\<close> action, and
  let \<open>s\<close> be the state the actions before it leave. The call changes no row and
  returns the dataset rebuilt from the rows of \<open>s\<close> whose \<^verbatim>\<open>JSON.stringify\<close> text
  differs from that of every earlier row: a row is dropped exactly when an earlier row
  has the same serialisation, and the first row of each serialisation is kept. The
  serialisation lists the fields in the order the row stores them.
\<close>

theorem remove_duplicates_by_serialisation:
  assumes "clean rt st ds pre = Inr s" and "action_type a = remove_duplicates"
  shows "performDataCleaning rt st ds \<lparr>actions = pre @ [a], summary = sm\<rparr> =
     Inr (\<lparr>cells = heap s, fresh = next_ref s\<rparr>,
          rebuildDataSet rt (heap s)
            (nths (cleanedRows s)
               {i. \<forall>j<i. JSON_stringify rt (heap s (cleanedRows s ! j))
                           \<noteq> JSON_stringify rt (heap s (cleanedRows s ! i))})
            (fileName ds) (fileSize ds))"
  using assms
  by (simp add: performDataCleaning_def clean_snoc apply_action_def remove_duplicate_rows_def
      filter_unseen_nths)

theorem remove_duplicates_by_serialisation_witness:
  "returned_rows
     (performDataCleaning sample_runtime
        (store_of [[(''a'', JNum (Fin 1))], [(''a'', JNum (Fin 1))], [(''a'', JNum (Fin 2))]])
        (dataset_of sample_runtime
           [[(''a'', JNum (Fin 1))], [(''a'', JNum (Fin 1))], [(''a'', JNum (Fin 2))]])
        (plan_of [\<lparr>action_type = remove_duplicates, column = None, parameters = None,
                   description = []\<rparr>]))
   = Inr [[(''a'', JNum (Fin 1))], [(''a'', JNum (Fin 2))]]"
proof -
  let ?rws = "[[(''a'', JNum (Fin 1))], [(''a'', JNum (Fin 1))], [(''a'', JNum (Fin 2))]]"
  let ?st = "store_of ?rws" and ?ds = "dataset_of sample_runtime ?rws"
  let ?a = "\<lparr>action_type = remove_duplicates, column = None, parameters = None, description = []\<rparr>"
  let ?s = "start ?st ?ds"
  let ?sig = "\<lambda>i. JSON_stringify sample_runtime (heap ?s (cleanedRows ?s ! i))"
  have a: "action_type ?a = remove_duplicates" by simp
  have rs: "cleanedRows ?s = [0, 1, 2]"
    by (simp add: start_def rows_dataset_of upt_rec)
  have sigs: "?sig 0 = ?sig (Suc 0)" "?sig 0 \<noteq> ?sig (Suc (Suc 0))"
    "?sig (Suc 0) \<noteq> ?sig (Suc (Suc 0))"
    by code_simp+
  have "nths [0, 1, 2::nat] {i. \<forall>j<i. ?sig j \<noteq> ?sig i} = [0, 2]"
    using sigs by (simp add: nths_Cons All_less_Suc)
  then have kept: "nths (cleanedRows ?s) {i. \<forall>j<i. ?sig j \<noteq> ?sig i} = [0, 2]"
    by (simp only: rs)
  have "performDataCleaning sample_runtime ?st ?ds \<lparr>actions = [] @ [?a], summary = []\<rparr> =
     Inr (\<lparr>cells = heap ?s, fresh = next_ref ?s\<rparr>,
          rebuildDataSet sample_runtime (heap ?s)
            (nths (cleanedRows ?s) {i. \<forall>j<i. ?sig j \<noteq> ?sig i})
            (fileName ?ds) (fileSize ?ds))"
    by (rule remove_duplicates_by_serialisation [OF clean_Nil a])
  then have "performDataCleaning sample_runtime ?st ?ds \<lparr>actions = [] @ [?a], summary = []\<rparr> =
     Inr (\<lparr>cells = heap ?s, fresh = next_ref ?s\<rparr>,
          rebuildDataSet sample_runtime (heap ?s) [0, 2] (fileName ?ds) (fileSize ?ds))"
    by (simp only: kept)
  then show ?thesis
    by (simp add: returned_rows_def plan_of_def rebuildDataSet_def Let_def start_def
        store_of_def)
qed

text \<open>
  Two rows with the same fields and values, stored in different orders: the second is
  not dropped.
\<close>

theorem remove_duplicates_depends_on_field_order:
  "set [(''a'', JStr ''x''), (''b'', JStr ''y'')] = set [(''b'', JStr ''y''), (''a'', JStr ''x'')] \<and>
   returned_rows
     (performDataCleaning sample_runtime
        (store_of [[(''a'', JStr ''x''), (''b'', JStr ''y'')], [(''b'', JStr ''y''), (''a'', JStr ''x'')]])
        (dataset_of sample_runtime
           [[(''a'', JStr ''x''), (''b'', JStr ''y'')], [(''b'', JStr ''y''), (''a'', JStr ''x'')]])
        (plan_of [\<lparr>action_type = remove_duplicates, column = None, parameters = None,
                   description = []\<rparr>]))
   = Inr [[(''a'', JStr ''x''), (''b'', JStr ''y'')], [(''b'', JStr ''y''), (''a'', JStr ''x'')]]"
  by code_simp

subsection \<open>\<^verbatim>\<open>cast_type\<close> to Number\<close>

lemma cast_row_number:
  "cast_row rt col TNumber r = Inr (js_set r col (number_or_null rt (js_get r col)))"
  by (simp add: cast_row_def cast_value_def number_or_null_def Let_def)

lemma apply_cast_number:
  assumes "action_type a = cast_type" and "column a = Some col" and "col \<noteq> []"
    and "the_targetType a = Some TNumber"
  shows "apply_action rt a s =
     Inr (s\<lparr>heap := update_each (\<lambda>r. js_set r col (number_or_null rt (js_get r col)))
                      (cleanedRows s) (heap s)\<rparr>)"
  using assms
  by (simp add: apply_action_def given_def cast_column_def
      try_update_each_total [where g = "\<lambda>r. js_set r col (number_or_null rt (js_get r col))"]
      cast_row_number)

text \<open>
  Claim C10. Let the dataset hold each row object once, let a plan end with a
  \<^verbatim>\<open>cast_type\<close> action to Number on a column, and let \<open>s\<close> be the state the actions
  before it leave. The call returns the rows of \<open>s\<close>,
  and in each of them the cell of the column is the number 0 when it was null or the
  empty text, is null exactly when the numeric conversion of the cell it held is NaN,
  and is that number otherwise.
\<close>

theorem cast_number_missing_to_zero:
  assumes "distinct (rows ds)" and "clean rt st ds pre = Inr s"
    and "action_type a = cast_type" and "column a = Some col" and "col \<noteq> []"
    and "the_targetType a = Some TNumber"
  shows "\<exists>st' ds'.
     performDataCleaning rt st ds \<lparr>actions = pre @ [a], summary = sm\<rparr> = Inr (st', ds') \<and>
     rows ds' = cleanedRows s \<and>
     (\<forall>r \<in> set (rows ds').
        (js_get (heap s r) col = JNull \<or> js_get (heap s r) col = JStr []
           \<longrightarrow> js_get (cells st' r) col = JNum (Fin 0)) \<and>
        (js_get (cells st' r) col = JNull \<longleftrightarrow> isNaN (ToNumber rt (js_get (heap s r) col))) \<and>
        (\<not> isNaN (ToNumber rt (js_get (heap s r) col))
           \<longrightarrow> js_get (cells st' r) col = JNum (ToNumber rt (js_get (heap s r) col))))"
proof -
  let ?f = "\<lambda>r. js_set r col (number_or_null rt (js_get r col))"
  let ?h = "update_each ?f (cleanedRows s) (heap s)"
  have d: "distinct (cleanedRows s)" using assms(1,2) by (rule distinct_clean)
  have nd: "action_type a \<noteq> drop_column" using assms(3) by simp
  have res: "performDataCleaning rt st ds \<lparr>actions = pre @ [a], summary = sm\<rparr> =
      Inr (\<lparr>cells = ?h, fresh = next_ref s\<rparr>,
           rebuildDataSet rt ?h (cleanedRows s) (fileName ds) (fileSize ds))"
    using assms(2) apply_cast_number [OF assms(3-6), of rt s]
    by (simp add: performDataCleaning_def clean_snoc [OF nd])
  have cell: "js_get (?h r) col = number_or_null rt (js_get (heap s r) col)"
    if "r \<in> set (cleanedRows s)" for r
    using d that by (simp add: update_each_distinct js_get_js_set)
  show ?thesis
    using res cell
    by (auto simp: rebuildDataSet_def Let_def number_or_null_def isNaN_def)
qed

theorem cast_number_missing_to_zero_witness:
  "returned_column ''x''
     (performDataCleaning sample_runtime
        (store_of [[(''x'', JNull)], [(''x'', JStr [])], [(''x'', JStr ''7'')], [(''x'', JStr ''abc'')]])
        (dataset_of sample_runtime
           [[(''x'', JNull)], [(''x'', JStr [])], [(''x'', JStr ''7'')], [(''x'', JStr ''abc'')]])
        (plan_of [action cast_type ''x'' (with_target TNumber)]))
   = Inr [JNum (Fin 0), JNum (Fin 0), JNum (Fin 7), JNull]"
proof -
  let ?rws = "[[(''x'', JNull)], [(''x'', JStr [])], [(''x'', JStr ''7'')], [(''x'', JStr ''abc'')]]"
  let ?st = "store_of ?rws" and ?ds = "dataset_of sample_runtime ?rws"
  let ?a = "action cast_type ''x'' (with_target TNumber)"
  have upt: "[0 ..< 4] = [0, 1, 2, 3::nat]" by (simp add: upt_rec)
  have d: "distinct (rows ?ds)" by (simp add: rows_dataset_of)
  have a: "action_type ?a = cast_type" "column ?a = Some ''x''" "''x'' \<noteq> []"
    "the_targetType ?a = Some TNumber"
    by (simp_all add: action_def with_target_def the_targetType_def)
  obtain st' ds' where
    res: "performDataCleaning sample_runtime ?st ?ds \<lparr>actions = [] @ [?a], summary = []\<rparr> = Inr (st', ds')"
    and rws: "rows ds' = cleanedRows (start ?st ?ds)"
    and cell: "\<forall>r \<in> set (rows ds').
        (js_get (heap (start ?st ?ds) r) ''x'' = JNull \<or> js_get (heap (start ?st ?ds) r) ''x'' = JStr []
           \<longrightarrow> js_get (cells st' r) ''x'' = JNum (Fin 0)) \<and>
        (js_get (cells st' r) ''x'' = JNull \<longleftrightarrow> isNaN (ToNumber sample_runtime (js_get (heap (start ?st ?ds) r) ''x''))) \<and>
        (\<not> isNaN (ToNumber sample_runtime (js_get (heap (start ?st ?ds) r) ''x''))
           \<longrightarrow> js_get (cells st' r) ''x'' = JNum (ToNumber sample_runtime (js_get (heap (start ?st ?ds) r) ''x'')))"
    using cast_number_missing_to_zero [OF d clean_Nil a, of sample_runtime ?st "[]"] by blast
  have rows': "rows ds' = [0, 1, 2, 3]"
    using rws by (simp add: start_def rows_dataset_of upt)
  have before: "map (\<lambda>r. js_get (heap (start ?st ?ds) r) ''x'') [0, 1, 2, 3]
      = [JNull, JStr [], JStr ''7'', JStr ''abc'']"
    by (simp add: start_def store_of_def js_get_def)
  have nums: "ToNumber sample_runtime (JStr ''7'') = Fin 7" "ToNumber sample_runtime (JStr ''abc'') = NaN"
    by (simp_all add: sample_runtime_def numeral_value_def is_digit_def decimal_value_def digit_value_def)
  have "map (\<lambda>a. js_get (cells st' a) ''x'') (rows ds') = [JNum (Fin 0), JNum (Fin 0), JNum (Fin 7), JNull]"
    using cell before nums by (simp add: rows' isNaN_def)
  then show ?thesis using res by (simp add: returned_column_def plan_of_def)
qed

subsection \<open>\<^verbatim>\<open>impute\<close>\<close>

lemma map_of_count_up:
  "map_of (count_up counts s) =
     (case map_of counts s of
        Some (Count n) \<Rightarrow> (map_of counts)(s \<mapsto> Count (n + 1))
      | Some Concatenation \<Rightarrow> (map_of counts)(s \<mapsto> Concatenation)
      | None \<Rightarrow>
          if s \<in> set inherited_members
          then (if s = ''__proto__'' then map_of counts else (map_of counts)(s \<mapsto> Concatenation))
          else (map_of counts)(s \<mapsto> Count 1))"
  by (simp add: count_up_def map_of_js_set split: option.splits tally.splits)

lemma count_up_by_name: "counts_by_name counts \<Longrightarrow> counts_by_name (count_up counts s)"
  unfolding counts_by_name_def map_of_count_up
  by (auto split: option.splits tally.splits if_splits)

lemma count_up_other:
  assumes "counts_by_name counts" and "s \<notin> set inherited_members"
  shows "\<exists>c. map_of (count_up counts s) s = Some (Count c) \<and> 0 < c"
proof (cases "map_of counts s")
  case None
  then show ?thesis using assms(2) by (simp add: map_of_count_up)
next
  case (Some t)
  then have "t \<noteq> Concatenation" using assms by (auto simp: counts_by_name_def)
  then obtain n where "t = Count n" by (cases t) simp_all
  then show ?thesis using Some by (simp add: map_of_count_up)
qed

lemma count_up_inherited:
  assumes "counts_by_name counts" and "s \<in> set inherited_members"
  shows "map_of (count_up counts s) s \<noteq> Some (Count c)"
proof (cases "map_of counts s")
  case None
  then show ?thesis using assms(2) by (auto simp: map_of_count_up)
next
  case (Some t)
  then have "t = Concatenation" using assms by (auto simp: counts_by_name_def)
  then show ?thesis using Some by (simp add: map_of_count_up)
qed

lemma mode_step_inv:
  assumes "if fst (snd acc) = 0 then snd (snd acc) = JNull else \<not> is_missing (snd (snd acc))"
  shows "if fst (snd (mode_step rt v acc)) = 0 then snd (snd (mode_step rt v acc)) = JNull
         else \<not> is_missing (snd (snd (mode_step rt v acc)))"
  using assms
  by (cases acc) (auto simp: mode_step_def Let_def split: option.splits tally.splits if_splits)

lemma mode_step_max: "fst (snd acc) \<le> fst (snd (mode_step rt v acc))"
  by (cases acc) (auto simp: mode_step_def Let_def split: option.splits tally.splits)

lemma mode_step_by_name:
  "counts_by_name (fst acc) \<Longrightarrow> counts_by_name (fst (mode_step rt v acc))"
  by (cases acc)
     (auto simp: mode_step_def Let_def count_up_by_name split: option.splits tally.splits)

lemma mode_step_pos:
  assumes "\<not> is_missing v" and "ToString rt v \<notin> set inherited_members"
    and "counts_by_name (fst acc)"
  shows "0 < fst (snd (mode_step rt v acc))"
proof -
  obtain counts maxC modeVal where acc: "acc = (counts, maxC, modeVal)" by (cases acc)
  obtain c where "map_of (count_up counts (ToString rt v)) (ToString rt v) = Some (Count c)"
    and "0 < c"
    using count_up_other [of counts "ToString rt v"] assms(2,3) acc by auto
  then show ?thesis using assms(1) by (simp add: acc mode_step_def Let_def)
qed

lemma mode_step_skip:
  assumes "is_missing v \<or> ToString rt v \<in> set inherited_members"
    and "counts_by_name (fst acc)"
  shows "snd (mode_step rt v acc) = snd acc"
proof -
  obtain counts maxC modeVal where acc: "acc = (counts, maxC, modeVal)" by (cases acc)
  show ?thesis
  proof (cases "is_missing v")
    case True
    then show ?thesis by (simp add: acc mode_step_def)
  next
    case False
    then have "ToString rt v \<in> set inherited_members" using assms(1) by simp
    then have "map_of (count_up counts (ToString rt v)) (ToString rt v) \<noteq> Some (Count c)" for c
      using count_up_inherited [of counts "ToString rt v"] assms(2) acc by simp
    then show ?thesis
      using False by (simp add: acc mode_step_def Let_def split: option.splits tally.splits)
  qed
qed

lemma mode_fold_inv:
  assumes "if fst (snd acc) = 0 then snd (snd acc) = JNull else \<not> is_missing (snd (snd acc))"
  shows "if fst (snd (fold (mode_step rt) vs acc)) = 0
         then snd (snd (fold (mode_step rt) vs acc)) = JNull
         else \<not> is_missing (snd (snd (fold (mode_step rt) vs acc)))"
  using assms
proof (induction vs arbitrary: acc)
  case Nil
  then show ?case by simp
next
  case (Cons v vs)
  show ?case using Cons.IH [OF mode_step_inv [OF Cons.prems]] by simp
qed

lemma mode_fold_max: "fst (snd acc) \<le> fst (snd (fold (mode_step rt) vs acc))"
proof (induction vs arbitrary: acc)
  case Nil
  then show ?case by simp
next
  case (Cons v vs)
  show ?case using mode_step_max [of acc rt v] Cons.IH [of "mode_step rt v acc"] by simp
qed

lemma mode_fold_pos:
  assumes "\<exists>v \<in> set vs. \<not> is_missing v \<and> ToString rt v \<notin> set inherited_members"
    and "counts_by_name (fst acc)"
  shows "0 < fst (snd (fold (mode_step rt) vs acc))"
  using assms
proof (induction vs arbitrary: acc)
  case Nil
  then show ?case by simp
next
  case (Cons v vs)
  have by_name: "counts_by_name (fst (mode_step rt v acc))"
    using Cons.prems(2) by (rule mode_step_by_name)
  show ?case
  proof (cases "\<not> is_missing v \<and> ToString rt v \<notin> set inherited_members")
    case True
    then have "0 < fst (snd (mode_step rt v acc))"
      using Cons.prems(2) by (simp add: mode_step_pos)
    then show ?thesis using mode_fold_max [of "mode_step rt v acc" rt vs] by simp
  next
    case False
    with Cons.prems(1)
    have "\<exists>v \<in> set vs. \<not> is_missing v \<and> ToString rt v \<notin> set inherited_members" by auto
    then show ?thesis using Cons.IH [OF _ by_name] by simp
  qed
qed

lemma mode_fold_none:
  assumes "\<forall>v \<in> set vs. is_missing v \<or> ToString rt v \<in> set inherited_members"
    and "counts_by_name (fst acc)"
  shows "snd (fold (mode_step rt) vs acc) = snd acc"
  using assms
proof (induction vs arbitrary: acc)
  case Nil
  then show ?case by simp
next
  case (Cons v vs)
  have by_name: "counts_by_name (fst (mode_step rt v acc))"
    using Cons.prems(2) by (rule mode_step_by_name)
  have "snd (mode_step rt v acc) = snd acc"
    using Cons.prems by (simp add: mode_step_skip)
  then show ?case using Cons.IH [OF _ by_name] Cons.prems(1) by simp
qed

lemma counts_by_name_Nil: "counts_by_name []"
  by (simp add: counts_by_name_def)

lemma mode_of_basis:
  assumes "list_ex (\<lambda>v. \<not> is_missing v \<and> ToString rt v \<notin> set inherited_members) vs"
  shows "\<not> is_missing (mode_of rt vs)"
proof -
  have "0 < fst (snd (fold (mode_step rt) vs ([], 0, JNull)))"
    using assms by (intro mode_fold_pos) (simp_all add: list_ex_iff counts_by_name_Nil)
  then show ?thesis
    using mode_fold_inv [of "([], 0, JNull)" rt vs] by (simp add: mode_of_def)
qed

lemma mode_of_no_basis:
  assumes "\<not> list_ex (\<lambda>v. \<not> is_missing v \<and> ToString rt v \<notin> set inherited_members) vs"
  shows "mode_of rt vs = JNull"
proof -
  have "\<forall>v \<in> set vs. is_missing v \<or> ToString rt v \<in> set inherited_members"
    using assms by (auto simp: list_ex_iff)
  then have "snd (fold (mode_step rt) vs ([], 0, JNull)) = (0, JNull)"
    using mode_fold_none [of vs rt "([], 0, JNull)"] by (simp add: counts_by_name_Nil)
  then show ?thesis by (simp add: mode_of_def)
qed

lemma fill_value_basis:
  "has_basis rt strat vs \<Longrightarrow> \<not> is_missing (fill_value rt strat vs)"
  by (cases strat)
     (simp_all add: has_basis_def fill_value_def Let_def mode_of_basis,
      simp_all add: is_missing_def)

lemma fill_value_no_basis:
  "\<not> has_basis rt strat vs \<Longrightarrow> fill_value rt strat vs = JNull"
  by (auto simp: has_basis_def fill_value_def Let_def mode_of_no_basis split: if_splits)

lemma fill_row_filled: "\<not> is_missing v \<Longrightarrow> \<not> is_missing (js_get (fill_row col v r) col)"
  by (simp add: fill_row_def js_get_js_set)

lemma fill_row_same: "\<not> is_missing (js_get r col) \<Longrightarrow> fill_row col v r = r"
  by (simp add: fill_row_def)

text \<open>
  What the code does for a fill strategy. Let a plan end with an \<^verbatim>\<open>impute\<close> action on
  a column with one of the strategies \<^verbatim>\<open>mean\<close>, \<^verbatim>\<open>median\<close>, \<^verbatim>\<open>mode\<close>,
  \<^verbatim>\<open>fill_zero\<close>, and let \<open>s\<close> be the state the actions before it leave. The call
  returns the rows of \<open>s\<close>. When the code finds a value to fill from, no returned row has
  a missing cell in the column, and a row whose cell was not missing is unchanged; when
  it finds none, no row is changed.
\<close>

lemma impute_fills_from_basis:
  assumes "clean rt st ds pre = Inr s"
    and "action_type a = impute" and "column a = Some col" and "col \<noteq> []"
    and "the_strategy a = Some strat" and "strat \<in> {mean, median, mode, fill_zero}"
  shows "\<exists>st' ds'.
     performDataCleaning rt st ds \<lparr>actions = pre @ [a], summary = sm\<rparr> = Inr (st', ds') \<and>
     rows ds' = cleanedRows s \<and>
     (if has_basis rt strat (map (\<lambda>r. js_get (heap s r) col) (cleanedRows s))
      then \<forall>r \<in> set (rows ds').
             \<not> is_missing (js_get (cells st' r) col) \<and>
             (\<not> is_missing (js_get (heap s r) col) \<longrightarrow> cells st' r = heap s r)
      else cells st' = heap s)"
proof -
  let ?vs = "map (\<lambda>r. js_get (heap s r) col) (cleanedRows s)"
  let ?fv = "fill_value rt strat ?vs"
  have nd: "action_type a \<noteq> drop_column" using assms(2) by simp
  have nr: "strat \<noteq> remove_row" using assms(6) by auto
  have step: "apply_action rt a s = Inr (impute_column rt col strat s)"
    using assms(2-5) by (simp add: apply_action_def given_def)
  show ?thesis
  proof (cases "has_basis rt strat ?vs")
    case True
    let ?h = "update_each (fill_row col ?fv) (cleanedRows s) (heap s)"
    have fv: "\<not> is_missing ?fv" using True by (rule fill_value_basis)
    then have "?fv \<noteq> JNull" by (auto simp: is_missing_def)
    then have "impute_column rt col strat s = s\<lparr>heap := ?h\<rparr>"
      using nr by (simp add: impute_column_def Let_def)
    then have res: "performDataCleaning rt st ds \<lparr>actions = pre @ [a], summary = sm\<rparr> =
        Inr (\<lparr>cells = ?h, fresh = next_ref s\<rparr>,
             rebuildDataSet rt ?h (cleanedRows s) (fileName ds) (fileSize ds))"
      using assms(1) step by (simp add: performDataCleaning_def clean_snoc [OF nd])
    have filled: "\<not> is_missing (js_get (?h r) col)" if "r \<in> set (cleanedRows s)" for r
      using fill_row_filled [OF fv] that
      by (rule update_each_establishes [where P = "\<lambda>r. \<not> is_missing (js_get r col)"])
    have kept: "?h r = heap s r" if "\<not> is_missing (js_get (heap s r) col)" for r
      using that by (simp add: update_each_fixed fill_row_same)
    show ?thesis using True res filled kept by (simp add: rebuildDataSet_def Let_def)
  next
    case False
    then have "?fv = JNull" by (rule fill_value_no_basis)
    then have "impute_column rt col strat s = s"
      using nr by (simp add: impute_column_def Let_def)
    then have "performDataCleaning rt st ds \<lparr>actions = pre @ [a], summary = sm\<rparr> =
        Inr (\<lparr>cells = heap s, fresh = next_ref s\<rparr>,
             rebuildDataSet rt (heap s) (cleanedRows s) (fileName ds) (fileSize ds))"
      using assms(1) step by (simp add: performDataCleaning_def clean_snoc [OF nd])
    then show ?thesis using False by (simp add: rebuildDataSet_def Let_def)
  qed
qed

text \<open>
  Claim C6 fails on the code. The \<^verbatim>\<open>mode\<close> strategy counts the texts of the values in
  an object literal. When a text names a member every object inherits, \<^verbatim>\<open>counts[s]\<close>
  is that member and not a count, \<^verbatim>\<open>counts[s] > maxC\<close> is false, and the value never
  becomes the mode. For the rows \<^verbatim>\<open>{x: 'constructor'}\<close> and \<^verbatim>\<open>{x: null}\<close> the column
  holds a value that is not missing, and the call returns the rows as they were: the
  null cell is still missing.
\<close>

theorem impute_mode_misses_inherited_name:
  "list_ex (\<lambda>v. \<not> is_missing v) [JStr ''constructor'', JNull] \<and>
   returned_rows
     (performDataCleaning rt
        (store_of [[(''x'', JStr ''constructor'')], [(''x'', JNull)]])
        (dataset_of rt [[(''x'', JStr ''constructor'')], [(''x'', JNull)]])
        (plan_of [action impute ''x'' (with_strategy mode)]))
     = Inr [[(''x'', JStr ''constructor'')], [(''x'', JNull)]]"
  by code_simp

subsection \<open>The rows of the input dataset\<close>

text \<open>
  Claim C1 fails on the code. \<^verbatim>\<open>[...dataset.rows]\<close> copies the array, not the rows:
  the \<^verbatim>\<open>delete\<close> of a column drop and the assignments of \<^verbatim>\<open>impute\<close> and
  \<^verbatim>\<open>cast_type\<close> change the row objects the input dataset refers to. For the dataset
  with the one row \<^verbatim>\<open>{a: 1, b: 2}\<close> and the plan that drops column \<^verbatim>\<open>b\<close>, the row of
  the input dataset is \<^verbatim>\<open>{a: 1}\<close> after the call.
\<close>

theorem performDataCleaning_changes_input_rows:
  "map (cells (store_of [[(''a'', JNum (Fin 1)), (''b'', JNum (Fin 2))]]))
       (rows (dataset_of rt [[(''a'', JNum (Fin 1)), (''b'', JNum (Fin 2))]]))
     = [[(''a'', JNum (Fin 1)), (''b'', JNum (Fin 2))]] \<and>
   rows_after (dataset_of rt [[(''a'', JNum (Fin 1)), (''b'', JNum (Fin 2))]])
     (performDataCleaning rt (store_of [[(''a'', JNum (Fin 1)), (''b'', JNum (Fin 2))]])
        (dataset_of rt [[(''a'', JNum (Fin 1)), (''b'', JNum (Fin 2))]])
        (plan_of [action drop_column ''b'' None]))
     = Inr [[(''a'', JNum (Fin 1))]]"
  by code_simp

subsection \<open>\<^verbatim>\<open>cast_type\<close> to Date\<close>

text \<open>
  Claim C2 fails on the code. A cell that is truthy and whose text is not a date makes
  \<^verbatim>\<open>toISOString\<close> throw: the call ends with a \<^verbatim>\<open>RangeError\<close> instead of writing
  null and going on with the plan.
\<close>

theorem cast_date_throws:
  assumes "DateToISO rt ''abc'' = None"
  shows "performDataCleaning rt (store_of [[(''d'', JStr ''abc'')]])
       (dataset_of rt [[(''d'', JStr ''abc'')]])
       (plan_of [action cast_type ''d'' (with_target TDate)])
   = Inl RangeError"
  using assms
  by (simp add: performDataCleaning_def clean_def start_def plan_of_def action_def with_target_def
     drop_columns_def apply_action_def given_def the_targetType_def cast_column_def cast_row_def
     cast_value_def dataset_of_def store_of_def rebuildDataSet_def js_get_def Let_def)

theorem cast_date_throws_witness:
  "DateToISO sample_runtime ''abc'' = None \<and>
   performDataCleaning sample_runtime (store_of [[(''d'', JStr ''abc'')]])
       (dataset_of sample_runtime [[(''d'', JStr ''abc'')]])
       (plan_of [action cast_type ''d'' (with_target TDate)])
   = Inl RangeError"
proof -
  have h: "DateToISO sample_runtime ''abc'' = None" by (simp add: sample_runtime_def)
  show ?thesis using h cast_date_throws [OF h] by simp
qed

section \<open>Properties of the transformation executor\<close>

lemmas object_defs = js_get_def js_set_def js_delete_def Object_keys_def is_array_index_def
  is_digit_def decimal_value_def digit_value_def

lemmas dataset_defs = table_of_def dataset_of_def store_of_def rebuildDataSet_def
  createColumnProfiles_def identifyType_def count_value_def share_over_80_def is_missing_def
  of_length_def Let_def

lemmas transformation_defs = performDataTransformation_def apply_transformation_def
  one_hot_encode_def indicator_column_def unique_texts_def sort_strings_def sanitize_def is_alnum_def
  min_max_scale_def rescale_row_def coerced_numbers_def Math_min_def Math_max_def isNaN_def
  num_sub_def json_clone_def

lemma map_of_json_clone:
  "is_object r \<Longrightarrow> map_of (json_clone r) k =
     (case map_of r k of None \<Rightarrow> None
      | Some v \<Rightarrow> if v = JUndefined then None else Some (json_clone_value v))"
proof (induction r)
  case Nil
  then show ?case by (simp add: json_clone_def)
next
  case (Cons p r)
  obtain k' v' where p: "p = (k', v')" by (cases p)
  from Cons.prems p have obj: "is_object r" and notin: "k' \<notin> fst ` set r"
    by (auto simp: is_object_def)
  have none: "map_of r k' = None" using notin by (simp add: map_of_eq_None_iff)
  have ih: "map_of (json_clone r) k =
     (case map_of r k of None \<Rightarrow> None
      | Some v \<Rightarrow> if v = JUndefined then None else Some (json_clone_value v))"
    using Cons.IH [OF obj] .
  show ?case
    using ih none by (auto simp: p json_clone_def split: option.splits)
qed

lemma js_get_json_clone:
  "is_object r \<Longrightarrow> js_get (json_clone r) k = json_clone_value (js_get r k)"
  by (auto simp: js_get_def map_of_json_clone split: option.splits)

lemma rows_rebuildDataSet: "rows (rebuildDataSet rt f rws n sz) = rws"
  by (simp add: rebuildDataSet_def Let_def)

lemma json_clone_value_text:
  "non_numeric_text rt v \<or> v = JUndefined \<Longrightarrow> json_clone_value v = v"
  by (cases v) (auto simp: non_numeric_text_def)

lemma isNaN_text:
  "non_numeric_text rt v \<or> v = JUndefined \<Longrightarrow> isNaN (ToNumber rt v)"
  by (cases v) (auto simp: non_numeric_text_def isNaN_def)

text \<open>
  What the code does for \<^verbatim>\<open>min_max\<close> on text. Let the rows be objects, no more of
  them than a call takes arguments. The transformation of a column returns a dataset
  with as many rows as before, and in every row a cell that holds text which is not a
  number, or that the row does not have, is left as it was.
\<close>

lemma min_max_leaves_text:
  assumes "\<forall>r \<in> set (rows ds). is_object r"
    and "int (length (rows ds)) \<le> MaxArguments rt"
  shows "\<exists>res.
     performDataTransformation rt ds [\<lparr>t_column = col, t_method = min_max\<rparr>] = Inr res \<and>
     length (rows res) = length (rows ds) \<and>
     (\<forall>i < length (rows ds).
        non_numeric_text rt (js_get (rows ds ! i) col) \<or> js_get (rows ds ! i) col = JUndefined
          \<longrightarrow> js_get (rows res ! i) col = js_get (rows ds ! i) col)"
proof -
  let ?copy = "map json_clone (rows ds)"
  let ?nums = "coerced_numbers rt col ?copy"
  have "length ?nums \<le> length (rows ds)"
    unfolding coerced_numbers_def
    using length_filter_le [of "\<lambda>n. \<not> isNaN n" "map (\<lambda>r. ToNumber rt (js_get r col)) ?copy"]
    by simp
  then have fits: "\<not> MaxArguments rt < int (length ?nums)" using assms(2) by linarith
  obtain lo where lo: "Math_min rt ?nums = Inr lo" using fits by (simp add: Math_min_def)
  obtain hi where hi: "Math_max rt ?nums = Inr hi" using fits by (simp add: Math_max_def)
  let ?f = "rescale_row rt col (\<lambda>val. num_div rt (num_sub rt val lo) (num_sub rt hi lo))"
  let ?out = "if hi \<noteq> lo then map ?f ?copy else ?copy"
  have out: "min_max_scale rt col ?copy = Inr ?out"
    by (simp add: min_max_scale_def Let_def lo hi)
  let ?res = "rebuildDataSet rt (\<lambda>r. r) ?out (fileName ds) (fileSize ds)"
  have res: "performDataTransformation rt ds [\<lparr>t_column = col, t_method = min_max\<rparr>] = Inr ?res"
    by (simp add: performDataTransformation_def apply_transformation_def out)
  have rws: "rows ?res = ?out" by (rule rows_rebuildDataSet)
  have len: "length ?out = length (rows ds)" by simp
  have cell: "js_get (?copy ! i) col = json_clone_value (js_get (rows ds ! i) col)"
    if "i < length (rows ds)" for i
    using that assms(1) by (simp add: js_get_json_clone)
  have kept: "js_get (?out ! i) col = js_get (rows ds ! i) col"
    if i: "i < length (rows ds)"
      and v: "non_numeric_text rt (js_get (rows ds ! i) col) \<or> js_get (rows ds ! i) col = JUndefined"
    for i
  proof -
    have same: "js_get (?copy ! i) col = js_get (rows ds ! i) col"
      using cell [OF i] json_clone_value_text [OF v] by simp
    then have "?f (?copy ! i) = ?copy ! i"
      using isNaN_text [OF v] by (simp add: rescale_row_def Let_def)
    then show ?thesis using i same by simp
  qed
  have len': "length (rows ?res) = length (rows ds)"
    using len by (simp only: rws)
  have kept': "js_get (rows ?res ! i) col = js_get (rows ds ! i) col"
    if "i < length (rows ds)"
      and "non_numeric_text rt (js_get (rows ds ! i) col) \<or> js_get (rows ds ! i) col = JUndefined"
    for i
    using kept [OF that] by (simp only: rws)
  show ?thesis
    using res len' kept' by blast
qed

text \<open>A column with more numeric conversions than a call takes arguments.\<close>

lemma min_max_throws_on_long_column:
  assumes "MaxArguments rt < int (length (coerced_numbers rt col (map json_clone (rows ds))))"
  shows "performDataTransformation rt ds [\<lparr>t_column = col, t_method = min_max\<rparr>] = Inl RangeError"
  using assms
  by (simp add: performDataTransformation_def apply_transformation_def min_max_scale_def
      Math_min_def Let_def)

text \<open>
  Claim C8 fails on the code. The rescaling is guarded by
  \<^verbatim>\<open>!isNaN(Number(r[col]))\<close>, the minimum and the maximum are taken over the same
  conversions, and \<^verbatim>\<open>Number(null)\<close> is 0. For the rows \<^verbatim>\<open>{x: null}\<close>, \<^verbatim>\<open>{x: 2}\<close>
  and \<^verbatim>\<open>{x: 4}\<close> the numeric values of the column are 2 and 4, which differ; the
  result holds 0, 1/2 and 1: the null cell is not left untouched, and it is taken for
  the minimum.
\<close>

theorem min_max_rescales_null:
  "numeric_values (map (\<lambda>r. js_get r ''x'')
       [[(''x'', JNull)], [(''x'', JNum (Fin 2))], [(''x'', JNum (Fin 4))]]) = [Fin 2, Fin 4] \<and>
   map_sum (\<lambda>e. e) rows
     (performDataTransformation sample_runtime
        (table_of sample_runtime [[(''x'', JNull)], [(''x'', JNum (Fin 2))], [(''x'', JNum (Fin 4))]])
        [\<lparr>t_column = ''x'', t_method = min_max\<rparr>])
     = Inr [[(''x'', JNum (Fin 0))], [(''x'', JNum (Fin (1 / 2)))], [(''x'', JNum (Fin 1))]]"
  by (simp add: performDataTransformation_def apply_transformation_def min_max_scale_def
      rescale_row_def coerced_numbers_def Math_min_def Math_max_def isNaN_def num_sub_def
      json_clone_def table_of_def rebuildDataSet_def js_get_def js_set_def Let_def
      sample_runtime_def)

text \<open>
  Claim C7 fails on the code. The column holds the two distinct texts \<^verbatim>\<open>a b\<close> and
  \<^verbatim>\<open>a_b\<close>; both indicator columns get the name \<^verbatim>\<open>c_a_b\<close>, the second overwrites
  the first, and the indicator of the first row is 0.
\<close>

theorem one_hot_names_collide:
  "unique_texts rt ''c'' [[(''c'', JStr ''a b'')], [(''c'', JStr ''a_b'')]] = [''a b'', ''a_b''] \<and>
   map_sum (\<lambda>e. e) rows
     (performDataTransformation rt
        (table_of rt [[(''c'', JStr ''a b'')], [(''c'', JStr ''a_b'')]])
        [\<lparr>t_column = ''c'', t_method = one_hot\<rparr>])
     = Inr [[(''c'', JStr ''a b''), (''c_a_b'', JNum (Fin 0))],
            [(''c'', JStr ''a_b''), (''c_a_b'', JNum (Fin 1))]]"
  by (simp add: transformation_defs dataset_defs object_defs)

section \<open>Properties of the hypothesis tests\<close>

lemma keys_insert_index:
  "k \<notin> fst ` set r \<Longrightarrow> fst ` set (insert_index k v r) = insert k (fst ` set r)"
proof -
  assume "k \<notin> fst ` set r"
  then have "map_of (insert_index k v r) = (map_of r)(k \<mapsto> v)"
    by (rule map_of_insert_index)
  then have "dom (map_of (insert_index k v r)) = dom ((map_of r)(k \<mapsto> v))"
    by simp
  then show ?thesis by (simp add: dom_map_of_conv_image_fst)
qed

lemma distinct_insert_index:
  "k \<notin> fst ` set r \<Longrightarrow> distinct (map fst r) \<Longrightarrow> distinct (map fst (insert_index k v r))"
proof (induction r)
  case Nil
  then show ?case by simp
next
  case (Cons p r)
  obtain k' v' where p: "p = (k', v')" by (cases p)
  from Cons.prems p have notin: "k \<notin> fst ` set r" and ne: "k \<noteq> k'"
    and d: "distinct (map fst r)" and k': "k' \<notin> fst ` set r"
    by auto
  have "k' \<notin> fst ` set (insert_index k v r)"
    using keys_insert_index [OF notin, of v] ne k' by simp
  then show ?case using Cons.IH [OF notin d] Cons.prems p by auto
qed

lemma keys_js_set: "fst ` set (js_set r k v) = insert k (fst ` set r)"
proof -
  have "dom (map_of (js_set r k v)) = dom ((map_of r)(k \<mapsto> v))"
    by (simp only: map_of_js_set)
  then show ?thesis by (simp add: dom_map_of_conv_image_fst)
qed

lemma is_object_js_set: "is_object r \<Longrightarrow> is_object (js_set r k v)"
  by (auto simp: is_object_def js_set_def distinct_update distinct_insert_index)

lemma add_to_group_other:
  assumes "ToString rt (js_get r g) \<notin> set inherited_members"
  shows "\<exists>groups'.
     add_to_group rt g t r groups = Inr groups' \<and>
     fst ` set groups' =
       fst ` set groups \<union>
       (if \<not> isNaN (ToNumber rt (js_get r t)) then {ToString rt (js_get r g)} else {}) \<and>
     (is_object groups \<longrightarrow> is_object groups')"
  using assms
  by (auto simp: add_to_group_def Let_def keys_js_set is_object_js_set split: option.splits)

lemma collect_groups_keys:
  assumes "\<forall>r \<in> set rws. ToString rt (js_get r g) \<notin> set inherited_members"
  shows "\<exists>groups'.
     collect_groups rt g t rws groups = Inr groups' \<and>
     fst ` set groups' =
       fst ` set groups \<union>
       (\<lambda>r. ToString rt (js_get r g)) ` {r \<in> set rws. \<not> isNaN (ToNumber rt (js_get r t))} \<and>
     (is_object groups \<longrightarrow> is_object groups')"
  using assms
proof (induction rws arbitrary: groups)
  case Nil
  then show ?case by simp
next
  case (Cons r rws)
  from Cons.prems have head: "ToString rt (js_get r g) \<notin> set inherited_members"
    and tail: "\<forall>r \<in> set rws. ToString rt (js_get r g) \<notin> set inherited_members"
    by simp_all
  obtain g1 where g1: "add_to_group rt g t r groups = Inr g1"
    and k1: "fst ` set g1 =
       fst ` set groups \<union>
       (if \<not> isNaN (ToNumber rt (js_get r t)) then {ToString rt (js_get r g)} else {})"
    and o1: "is_object groups \<longrightarrow> is_object g1"
    using add_to_group_other [OF head, of t groups] by blast
  obtain g2 where g2: "collect_groups rt g t rws g1 = Inr g2"
    and k2: "fst ` set g2 =
       fst ` set g1 \<union>
       (\<lambda>r. ToString rt (js_get r g)) ` {r \<in> set rws. \<not> isNaN (ToNumber rt (js_get r t))}"
    and o2: "is_object g1 \<longrightarrow> is_object g2"
    using Cons.IH [OF tail, of g1] by blast
  have "collect_groups rt g t (r # rws) groups = Inr g2" by (simp add: g1 g2)
  moreover have "fst ` set g2 =
       fst ` set groups \<union>
       (\<lambda>r. ToString rt (js_get r g)) `
         {r' \<in> set (r # rws). \<not> isNaN (ToNumber rt (js_get r' t))}"
    unfolding k2 k1 by auto
  ultimately show ?case using o1 o2 by blast
qed

lemma coerced_usable:
  assumes "case v of JNull \<Rightarrow> False | JBool b \<Rightarrow> False | JStr s \<Rightarrow> \<not> blank s | _ \<Rightarrow> True"
  shows "\<not> isNaN (ToNumber rt v) \<longleftrightarrow> usable rt v"
  using assms by (cases v) (auto simp: usable_def isNaN_def blank_def)

lemma getNumData_observations:
  assumes "no_coerced_cells ds c"
  shows "length (getNumData rt ds c) = observations rt ds c"
proof -
  have "\<not> isNaN (ToNumber rt (js_get r c)) \<longleftrightarrow> usable rt (js_get r c)"
    if "r \<in> set (rows ds)" for r
    using that assms by (intro coerced_usable) (simp add: no_coerced_cells_def list_all_iff)
  then have "filter (\<lambda>r. \<not> isNaN (ToNumber rt (js_get r c))) (rows ds) =
        filter (\<lambda>r. usable rt (js_get r c)) (rows ds)"
    by (intro filter_cong) simp_all
  then show ?thesis
    by (simp add: getNumData_def observations_def filter_map comp_def)
qed

lemma anova_group_count:
  assumes "no_coerced_cells ds t" and "no_inherited_names rt ds g"
  shows "\<exists>groups. anova_groups rt ds g t = Inr groups \<and>
           length (Object_keys groups) = card (group_texts rt ds g t)"
proof -
  have names: "\<forall>r \<in> set (rows ds). ToString rt (js_get r g) \<notin> set inherited_members"
    using assms(2) by (simp add: no_inherited_names_def list_all_iff)
  obtain groups where res: "anova_groups rt ds g t = Inr groups"
    and keys: "fst ` set groups =
       (\<lambda>r. ToString rt (js_get r g)) ` {r \<in> set (rows ds). \<not> isNaN (ToNumber rt (js_get r t))}"
    and obj: "is_object groups"
    using collect_groups_keys [OF names, of t "[]"]
    by (auto simp: anova_groups_def is_object_def)
  have "\<not> isNaN (ToNumber rt (js_get r t)) \<longleftrightarrow> usable rt (js_get r t)"
    if "r \<in> set (rows ds)" for r
    using that assms(1) by (intro coerced_usable) (simp add: no_coerced_cells_def list_all_iff)
  then have "{r \<in> set (rows ds). \<not> isNaN (ToNumber rt (js_get r t))} =
        {r \<in> set (rows ds). usable rt (js_get r t)}"
    by blast
  then have "set (map fst groups) = group_texts rt ds g t"
    using keys by (simp add: group_texts_def)
  then have "length (Object_keys groups) = card (group_texts rt ds g t)"
    using obj distinct_card [of "map fst groups"] by (simp add: Object_keys_def is_object_def)
  then show ?thesis using res by blast
qed

lemma observations_absent: "column_absent ds c \<Longrightarrow> observations rt ds c = 0"
  by (simp add: column_absent_def observations_def list_all_iff usable_def filter_empty_conv)

lemma group_texts_absent_target: "column_absent ds t \<Longrightarrow> group_texts rt ds g t = {}"
  by (auto simp: column_absent_def group_texts_def list_all_iff usable_def)

lemma group_texts_absent_group: "column_absent ds g \<Longrightarrow> card (group_texts rt ds g t) \<le> 1"
proof -
  assume "column_absent ds g"
  then have "group_texts rt ds g t \<subseteq> {''undefined''}"
    by (auto simp: column_absent_def group_texts_def list_all_iff)
  then have "card (group_texts rt ds g t) \<le> card {''undefined''}"
    by (intro card_mono) simp_all
  then show ?thesis by simp
qed

lemma throws_or_returns:
  "throws (performHypothesisTest rt ds p) \<longleftrightarrow> rejects rt ds p \<Longrightarrow>
   performHypothesisTest rt ds p \<noteq> None \<Longrightarrow>
   returns (performHypothesisTest rt ds p) \<longleftrightarrow> \<not> rejects rt ds p"
  by (auto simp: throws_def returns_def split: option.splits sum.splits)

text \<open>
  Claim C5, as the code has it by design. Take a dataset and parameters in scope: the
  columns of a numeric test hold no null, boolean or blank-text cell, and the group
  column of the ANOVA and the first column of the chi-square test hold no text that
  names an inherited member. Then \<^verbatim>\<open>performHypothesisTest\<close> throws exactly when: for
  a t-test or z-test, a sample has fewer than 2 usable numeric observations (the second
  sample is empty when no second column is given); for chi-square, no second column
  is given; for ANOVA, no group column is given or fewer than 2 groups have a usable
  observation; and it returns a result otherwise. A column that no row has gives no
  observations and at most one group, so the t-test, the z-test and the ANOVA throw on
  it; the chi-square test does not look whether its columns exist.
\<close>

theorem performHypothesisTest_throws_iff:
  assumes "in_scope rt ds p"
  shows "(throws (performHypothesisTest rt ds p) \<longleftrightarrow> rejects rt ds p) \<and>
   (returns (performHypothesisTest rt ds p) \<longleftrightarrow> \<not> rejects rt ds p) \<and>
   (test_type p \<noteq> chi_square \<and> column_absent ds (targetColumn p)
      \<longrightarrow> throws (performHypothesisTest rt ds p)) \<and>
   ((test_type p = t_test \<or> test_type p = z_test) \<and> given (secondColumn p)
      \<and> column_absent ds (the (secondColumn p))
      \<longrightarrow> throws (performHypothesisTest rt ds p)) \<and>
   (test_type p = anova \<and> given (groupColumn p) \<and> column_absent ds (the (groupColumn p))
      \<longrightarrow> throws (performHypothesisTest rt ds p))"
proof -
  have main: "(throws (performHypothesisTest rt ds p) \<longleftrightarrow> rejects rt ds p) \<and>
      performHypothesisTest rt ds p \<noteq> None"
  proof (cases "test_type p")
    case t_test
    then have scope: "no_coerced_cells ds (targetColumn p)"
      "given (secondColumn p) \<longrightarrow> no_coerced_cells ds (the (secondColumn p))"
      using assms by (simp_all add: in_scope_def)
    show ?thesis
      using t_test scope
      by (auto simp: performHypothesisTest_def rejects_def throws_def Let_def
          getNumData_observations)
  next
    case z_test
    then have scope: "no_coerced_cells ds (targetColumn p)"
      "given (secondColumn p) \<longrightarrow> no_coerced_cells ds (the (secondColumn p))"
      using assms by (simp_all add: in_scope_def)
    show ?thesis
      using z_test scope
      by (auto simp: performHypothesisTest_def rejects_def throws_def Let_def
          getNumData_observations)
  next
    case chi_square
    then have "no_inherited_names rt ds (targetColumn p)"
      using assms by (simp add: in_scope_def)
    then have names: "\<forall>r \<in> set (rows ds).
        ToString rt (js_get r (targetColumn p)) \<notin> set inherited_members"
      by (simp add: no_inherited_names_def list_all_iff)
    have "key_at (getCatData rt ds (targetColumn p)) i \<notin> set inherited_members" for i
      using names by (auto simp: key_at_def getCatData_def inherited_members_def)
    then have "\<not> list_ex (\<lambda>rVal. rVal \<in> set inherited_members)
        (map (key_at (getCatData rt ds (targetColumn p))) [0 ..< totalRows ds])"
      by (simp add: list_ex_iff)
    then show ?thesis
      using chi_square
      by (simp add: performHypothesisTest_def rejects_def throws_def Let_def)
  next
    case anova
    show ?thesis
    proof (cases "given (groupColumn p)")
      case False
      then show ?thesis
        using anova by (simp add: performHypothesisTest_def rejects_def throws_def)
    next
      case True
      then have "no_coerced_cells ds (targetColumn p)"
        and "no_inherited_names rt ds (the (groupColumn p))"
        using assms anova by (simp_all add: in_scope_def)
      then obtain groups where
        "anova_groups rt ds (the (groupColumn p)) (targetColumn p) = Inr groups"
        and "length (Object_keys groups) =
             card (group_texts rt ds (the (groupColumn p)) (targetColumn p))"
        using anova_group_count by blast
      then show ?thesis
        using anova True
        by (simp add: performHypothesisTest_def rejects_def throws_def Let_def)
    qed
  qed
  then have iff: "throws (performHypothesisTest rt ds p) \<longleftrightarrow> rejects rt ds p"
    and ret: "returns (performHypothesisTest rt ds p) \<longleftrightarrow> \<not> rejects rt ds p"
    using throws_or_returns [of rt ds p] by blast+
  have target: "rejects rt ds p"
    if "test_type p \<noteq> chi_square" "column_absent ds (targetColumn p)"
    using that observations_absent [of ds "targetColumn p" rt]
      group_texts_absent_target [of ds "targetColumn p" rt "the (groupColumn p)"]
    by (cases "test_type p") (auto simp: rejects_def)
  have second: "rejects rt ds p"
    if "test_type p = t_test \<or> test_type p = z_test" "column_absent ds (the (secondColumn p))"
    using that observations_absent [of ds "the (secondColumn p)" rt]
    by (auto simp: rejects_def)
  have grp: "rejects rt ds p"
    if "test_type p = anova" "column_absent ds (the (groupColumn p))"
    using that group_texts_absent_group [of ds "the (groupColumn p)" rt "targetColumn p"]
    by (auto simp: rejects_def)
  show ?thesis using iff ret target second grp by blast
qed

theorem performHypothesisTest_throws_iff_witness:
  "in_scope sample_runtime
     (table_of sample_runtime
       [[(''x'', JNum (Fin 1)), (''y'', JNum (Fin 2))], [(''x'', JNum (Fin 3)), (''y'', JNum (Fin 4))]])
     \<lparr>test_type = t_test, targetColumn = ''zzz'', groupColumn = None, secondColumn = Some ''y''\<rparr> \<and>
   column_absent (table_of sample_runtime
       [[(''x'', JNum (Fin 1)), (''y'', JNum (Fin 2))], [(''x'', JNum (Fin 3)), (''y'', JNum (Fin 4))]]) ''zzz'' \<and>
   throws (performHypothesisTest sample_runtime
     (table_of sample_runtime
       [[(''x'', JNum (Fin 1)), (''y'', JNum (Fin 2))], [(''x'', JNum (Fin 3)), (''y'', JNum (Fin 4))]])
     \<lparr>test_type = t_test, targetColumn = ''zzz'', groupColumn = None, secondColumn = Some ''y''\<rparr>) \<and>
   in_scope sample_runtime
     (table_of sample_runtime
       [[(''x'', JNum (Fin 1)), (''y'', JNum (Fin 2))], [(''x'', JNum (Fin 3)), (''y'', JNum (Fin 4))]])
     \<lparr>test_type = t_test, targetColumn = ''x'', groupColumn = None, secondColumn = Some ''y''\<rparr> \<and>
   returns (performHypothesisTest sample_runtime
     (table_of sample_runtime
       [[(''x'', JNum (Fin 1)), (''y'', JNum (Fin 2))], [(''x'', JNum (Fin 3)), (''y'', JNum (Fin 4))]])
     \<lparr>test_type = t_test, targetColumn = ''x'', groupColumn = None, secondColumn = Some ''y''\<rparr>) \<and>
   in_scope sample_runtime
     (table_of sample_runtime
       [[(''x'', JNum (Fin 1)), (''y'', JNum (Fin 2))], [(''x'', JNum (Fin 3)), (''y'', JNum (Fin 4))]])
     \<lparr>test_type = anova, targetColumn = ''x'', groupColumn = Some ''y'', secondColumn = None\<rparr> \<and>
   returns (performHypothesisTest sample_runtime
     (table_of sample_runtime
       [[(''x'', JNum (Fin 1)), (''y'', JNum (Fin 2))], [(''x'', JNum (Fin 3)), (''y'', JNum (Fin 4))]])
     \<lparr>test_type = anova, targetColumn = ''x'', groupColumn = Some ''y'', secondColumn = None\<rparr>) \<and>
   in_scope sample_runtime
     (table_of sample_runtime
       [[(''x'', JNum (Fin 1)), (''y'', JNum (Fin 2))], [(''x'', JNum (Fin 3)), (''y'', JNum (Fin 4))]])
     \<lparr>test_type = chi_square, targetColumn = ''x'', groupColumn = None, secondColumn = None\<rparr> \<and>
   throws (performHypothesisTest sample_runtime
     (table_of sample_runtime
       [[(''x'', JNum (Fin 1)), (''y'', JNum (Fin 2))], [(''x'', JNum (Fin 3)), (''y'', JNum (Fin 4))]])
     \<lparr>test_type = chi_square, targetColumn = ''x'', groupColumn = None, secondColumn = None\<rparr>)"
proof -
  let ?ds = "table_of sample_runtime
       [[(''x'', JNum (Fin 1)), (''y'', JNum (Fin 2))], [(''x'', JNum (Fin 3)), (''y'', JNum (Fin 4))]]"
  let ?p = "\<lparr>test_type = t_test, targetColumn = ''zzz'', groupColumn = None, secondColumn = Some ''y''\<rparr>"
  let ?q = "\<lparr>test_type = t_test, targetColumn = ''x'', groupColumn = None, secondColumn = Some ''y''\<rparr>"
  have scope_p: "in_scope sample_runtime ?ds ?p" by code_simp
  have scope_q: "in_scope sample_runtime ?ds ?q" by code_simp
  have absent: "column_absent ?ds ''zzz''" by code_simp
  have enough: "\<not> rejects sample_runtime ?ds ?q" by code_simp
  have thrown: "throws (performHypothesisTest sample_runtime ?ds ?p)"
    using performHypothesisTest_throws_iff [OF scope_p, THEN conjunct2, THEN conjunct2, THEN conjunct1]
      absent
    by simp
  have returned: "returns (performHypothesisTest sample_runtime ?ds ?q)"
    using performHypothesisTest_throws_iff [OF scope_q, THEN conjunct2, THEN conjunct1] enough
    by simp
  let ?a = "\<lparr>test_type = anova, targetColumn = ''x'', groupColumn = Some ''y'', secondColumn = None\<rparr>"
  have scope_a: "in_scope sample_runtime ?ds ?a" by code_simp
  have groups: "group_texts sample_runtime ?ds ''y'' ''x'' = {''2'', ''4''}" by code_simp
  have two: "\<not> rejects sample_runtime ?ds ?a"
    by (simp add: rejects_def given_def groups)
  have returned_a: "returns (performHypothesisTest sample_runtime ?ds ?a)"
    using performHypothesisTest_throws_iff [OF scope_a, THEN conjunct2, THEN conjunct1] two
    by simp
  let ?c = "\<lparr>test_type = chi_square, targetColumn = ''x'', groupColumn = None, secondColumn = None\<rparr>"
  have scope_c: "in_scope sample_runtime ?ds ?c" by code_simp
  have one: "rejects sample_runtime ?ds ?c"
    by (simp add: rejects_def given_def)
  have thrown_c: "throws (performHypothesisTest sample_runtime ?ds ?c)"
    using performHypothesisTest_throws_iff [OF scope_c, THEN conjunct1] one
    by simp
  from scope_p absent thrown scope_q returned scope_a returned_a scope_c thrown_c
  show ?thesis by blast
qed

text \<open>
  A chi-square test whose target column is not in the dataset returns a result.
\<close>

theorem chi_square_on_absent_column_returns:
  "column_absent (table_of sample_runtime [[(''a'', JStr ''x'')]]) ''zzz'' \<and>
   performHypothesisTest sample_runtime (table_of sample_runtime [[(''a'', JStr ''x'')]])
     \<lparr>test_type = chi_square, targetColumn = ''zzz'', groupColumn = None, secondColumn = Some ''a''\<rparr>
   = Some (Inr \<lparr>testName = ''CHI-SQUARE'', statisticName = ''Chi'' @ [CHR 0xB2],
               degreesOfFreedom = 0\<rparr>)"
  by code_simp

text \<open>
  Outside the scope of the statement. Two columns of null cells hold no usable numeric
  observation, and the t-test returns a result: the conversion makes the number 0 of
  each null. A group whose text names an inherited member makes the ANOVA throw a
  \<^verbatim>\<open>TypeError\<close>, with two groups that each have an observation.
\<close>

lemma t_test_counts_null_cells:
  "observations rt (table_of rt [[(''x'', JNull), (''y'', JNull)], [(''x'', JNull), (''y'', JNull)]]) ''x'' = 0 \<and>
   performHypothesisTest rt
     (table_of rt [[(''x'', JNull), (''y'', JNull)], [(''x'', JNull), (''y'', JNull)]])
     \<lparr>test_type = t_test, targetColumn = ''x'', groupColumn = None, secondColumn = Some ''y''\<rparr>
   = Some (Inr \<lparr>testName = ''T-TEST'', statisticName = ''t'', degreesOfFreedom = 2\<rparr>)"
  by code_simp

lemma anova_throws_on_inherited_name:
  "performHypothesisTest rt
     (table_of rt [[(''g'', JStr ''constructor''), (''v'', JNum (Fin 1))],
                   [(''g'', JStr ''a''), (''v'', JNum (Fin 2))]])
     \<lparr>test_type = anova, targetColumn = ''v'', groupColumn = Some ''g'', secondColumn = None\<rparr>
   = Some (Inl TypeError)"
  by code_simp

section \<open>Properties of the category counts\<close>

text \<open>
  Claim C9 fails on the code. \<^verbatim>\<open>getCategoryCounts\<close> skips null and undefined only: a
  cell holding the empty text is counted, under the empty name.
\<close>

theorem getCategoryCounts_counts_empty_text:
  "getCategoryCounts rt (table_of rt [[(''c'', JStr [])], [(''c'', JNull)]]) ''c'' 10
     = Some [([], Count 1)]"
  by code_simp

text \<open>
  A text that names an inherited member gets a value that is not a count; beside two
  different counts the order of the entries is the engine's.
\<close>

lemma getCategoryCounts_inherited_name:
  "getCategoryCounts rt
     (table_of rt [[(''c'', JStr ''toString'')], [(''c'', JStr ''a'')]]) ''c'' 10
     = Some [(''toString'', Concatenation), (''a'', Count 1)] \<and>
   getCategoryCounts rt
     (table_of rt [[(''c'', JStr ''toString'')], [(''c'', JStr ''a'')], [(''c'', JStr ''b'')],
                   [(''c'', JStr ''b'')]]) ''c'' 10
     = None"
  by code_simp

end
